theory Spec2Isabelle
  imports Main "HOL-Library.AList"
begin

section \<open>Python values\<close>

text \<open>
  The orchestrator (\<^verbatim>\<open>app/fastapi_server.py\<close>) handles task records, worker statuses and
  payloads as JSON-shaped Python values.  A Python \<^verbatim>\<open>str\<close> is a \<^typ>\<open>string\<close> whose
  characters are the code points U+0000 .. U+00FF; a \<^verbatim>\<open>dict\<close> is an association list
  in insertion order with distinct keys; numbers are integers (floating point numbers are
  not part of the embedding).
\<close>

datatype json =
    JNull
  | JBool bool
  | JNum int
  | JStr string
  | JList "json list"
  | JDict "(string \<times> json) list"

type_synonym pydict = "(string \<times> json) list"

text \<open>Truth value testing (\<^verbatim>\<open>if x\<close>, \<^verbatim>\<open>not x\<close>, \<^verbatim>\<open>x or y\<close>).\<close>

fun truthy :: "json \<Rightarrow> bool" where
  "truthy JNull = False"
| "truthy (JBool b) = b"
| "truthy (JNum n) = (n \<noteq> 0)"
| "truthy (JStr s) = (s \<noteq> [])"
| "truthy (JList xs) = (xs \<noteq> [])"
| "truthy (JDict kvs) = (kvs \<noteq> [])"

text \<open>\<^verbatim>\<open>d.get(k)\<close>: the value, or \<^verbatim>\<open>None\<close> when the key is absent.\<close>

definition dget :: "pydict \<Rightarrow> string \<Rightarrow> json" where
  "dget d k = (case map_of d k of None \<Rightarrow> JNull | Some v \<Rightarrow> v)"

text \<open>\<^verbatim>\<open>d[k] = v\<close>: an existing key keeps its position, a new key goes last.\<close>

definition dset :: "pydict \<Rightarrow> string \<Rightarrow> json \<Rightarrow> pydict" where
  "dset d k v = AList.update k v d"

text \<open>\<^verbatim>\<open>d.update(other)\<close>.\<close>

definition dupdate :: "pydict \<Rightarrow> pydict \<Rightarrow> pydict" where
  "dupdate d other = fold (\<lambda>kv acc. dset acc (fst kv) (snd kv)) other d"

text \<open>\<^verbatim>\<open>x or y\<close> on values.\<close>

definition py_or :: "json \<Rightarrow> json \<Rightarrow> json" where
  "py_or x y = (if truthy x then x else y)"

subsection \<open>Character classes of \<^verbatim>\<open>str\<close> on U+0000 .. U+00FF\<close>

definition isalnum :: "char \<Rightarrow> bool" where
  "isalnum c = (let n = (of_char c :: nat) in
     (48 \<le> n \<and> n \<le> 57) \<or> (65 \<le> n \<and> n \<le> 90) \<or> (97 \<le> n \<and> n \<le> 122)
     \<or> n = 170 \<or> n = 178 \<or> n = 179 \<or> n = 181 \<or> n = 185 \<or> n = 186
     \<or> (188 \<le> n \<and> n \<le> 190) \<or> (192 \<le> n \<and> n \<le> 214)
     \<or> (216 \<le> n \<and> n \<le> 246) \<or> 248 \<le> n)"

definition isspace :: "char \<Rightarrow> bool" where
  "isspace c = (let n = (of_char c :: nat) in
     (9 \<le> n \<and> n \<le> 13) \<or> (28 \<le> n \<and> n \<le> 32) \<or> n = 133 \<or> n = 160)"

definition isprintable :: "char \<Rightarrow> bool" where
  "isprintable c = (let n = (of_char c :: nat) in
     (32 \<le> n \<and> n \<le> 126) \<or> (161 \<le> n \<and> n \<le> 172) \<or> 174 \<le> n)"

text \<open>The ASCII letters and digits, and the set \<^verbatim>\<open>[A-Za-z0-9._-]\<close>.\<close>

definition ascii_alnum :: "char \<Rightarrow> bool" where
  "ascii_alnum c = (let n = (of_char c :: nat) in
     (48 \<le> n \<and> n \<le> 57) \<or> (65 \<le> n \<and> n \<le> 90) \<or> (97 \<le> n \<and> n \<le> 122))"

definition ascii_safe :: "char \<Rightarrow> bool" where
  "ascii_safe c = (ascii_alnum c \<or> c \<in> set ''._-'')"

text \<open>\<^verbatim>\<open>s.strip()\<close>.\<close>

definition py_strip :: "string \<Rightarrow> string" where
  "py_strip s = rev (dropWhile isspace (rev (dropWhile isspace s)))"

section \<open>Task store: backup paths\<close>

text \<open>
  \<^verbatim>\<open>JobStore\<close> holds the cache prefix, the cache TTL, the disk TTL and the optional
  persistence directory.  A \<^verbatim>\<open>Path\<close> below that directory is the pair of the directory
  and the file name.
\<close>

record jobstore =
  prefix :: string
  ttl :: int
  persist_ttl :: int
  persist_path :: "string option"

type_synonym path = "string \<times> string"

text \<open>
  \<^verbatim>\<open>safe_id = "".join(ch for ch in task_id if ch.isalnum() or ch in "-_.")\<close>
\<close>

definition safe_id :: "string \<Rightarrow> string" where
  "safe_id task_id =
     (let s = filter (\<lambda>ch. isalnum ch \<or> ch \<in> set ''-_.'') task_id
      in if s = [] then ''task'' else s)"

definition backup_path :: "jobstore \<Rightarrow> string \<Rightarrow> path option" where
  "backup_path st task_id =
     (case persist_path st of
        None \<Rightarrow> None
      | Some dir \<Rightarrow> Some (dir, safe_id task_id @ ''.json''))"

subsection \<open>\<^verbatim>\<open>str()\<close>, \<^verbatim>\<open>repr()\<close> and \<^verbatim>\<open>str.upper()\<close>\<close>

fun digits :: "nat \<Rightarrow> string" where
  "digits n = (if n < 10 then [char_of (48 + n)] else digits (n div 10) @ [char_of (48 + n mod 10)])"

declare digits.simps [simp del]

definition int_str :: "int \<Rightarrow> string" where
  "int_str i = (if i < 0 then CHR ''-'' # digits (nat (- i)) else digits (nat i))"

definition hex2 :: "nat \<Rightarrow> string" where
  "hex2 n = [''0123456789abcdef'' ! (n div 16 mod 16), ''0123456789abcdef'' ! (n mod 16)]"

text \<open>
  \<^verbatim>\<open>repr\<close> of a string: single quotes, unless the string holds a single quote and no
  double quote; backslash, the delimiter, tab, newline and carriage return are escaped and
  every other non-printable character is written \<^verbatim>\<open>\xNN\<close>.
\<close>

definition repr_char :: "char \<Rightarrow> char \<Rightarrow> string" where
  "repr_char q c =
     (if c = CHR 0x5C then [CHR 0x5C, CHR 0x5C]
      else if c = q then [CHR 0x5C, q]
      else if c = CHR 0x09 then [CHR 0x5C, CHR ''t'']
      else if c = CHR 0x0A then [CHR 0x5C, CHR ''n'']
      else if c = CHR 0x0D then [CHR 0x5C, CHR ''r'']
      else if isprintable c then [c]
      else [CHR 0x5C, CHR ''x''] @ hex2 (of_char c))"

definition repr_str :: "string \<Rightarrow> string" where
  "repr_str s =
     (let q = (if CHR 0x27 \<in> set s \<and> CHR 0x22 \<notin> set s then CHR 0x22 else CHR 0x27)
      in [q] @ concat (map (repr_char q) s) @ [q])"

fun join :: "string \<Rightarrow> string list \<Rightarrow> string" where
  "join sep [] = []"
| "join sep [x] = x"
| "join sep (x # y # ys) = x @ sep @ join sep (y # ys)"

primrec py_repr :: "json \<Rightarrow> string" where
  "py_repr JNull = ''None''"
| "py_repr (JBool b) = (if b then ''True'' else ''False'')"
| "py_repr (JNum n) = int_str n"
| "py_repr (JStr s) = repr_str s"
| "py_repr (JList xs) = ''['' @ join '', '' (map py_repr xs) @ '']''"
| "py_repr (JDict kvs) =
     ''{'' @ join '', '' (map (\<lambda>kv. repr_str (fst kv) @ '': '' @ snd kv) (map (map_prod id py_repr) kvs)) @ ''}''"

definition py_str :: "json \<Rightarrow> string" where
  "py_str v = (case v of JStr s \<Rightarrow> s | _ \<Rightarrow> py_repr v)"

text \<open>
  \<^verbatim>\<open>str.upper()\<close>.  U+00B5 and U+00FF have upper-case forms beyond U+00FF, which a
  \<^typ>\<open>string\<close> cannot hold: they are left as they are (neither form is an ASCII letter).
\<close>

definition upper_char :: "char \<Rightarrow> string" where
  "upper_char c = (let n = (of_char c :: nat) in
     if 97 \<le> n \<and> n \<le> 122 then [char_of (n - 32)]
     else if n = 223 then ''SS''
     else if 224 \<le> n \<and> n \<le> 254 \<and> n \<noteq> 247 then [char_of (n - 32)]
     else [c])"

definition py_upper :: "string \<Rightarrow> string" where
  "py_upper s = concat (map upper_char s)"

definition is_dict :: "json \<Rightarrow> bool" where
  "is_dict v = (case v of JDict _ \<Rightarrow> True | _ \<Rightarrow> False)"

definition is_list :: "json \<Rightarrow> bool" where
  "is_list v = (case v of JList _ \<Rightarrow> True | _ \<Rightarrow> False)"

definition is_str :: "json \<Rightarrow> bool" where
  "is_str v = (case v of JStr _ \<Rightarrow> True | _ \<Rightarrow> False)"

definition type_name :: "json \<Rightarrow> string" where
  "type_name v = (case v of JNull \<Rightarrow> ''NoneType'' | JBool _ \<Rightarrow> ''bool'' | JNum _ \<Rightarrow> ''int''
     | JStr _ \<Rightarrow> ''str'' | JList _ \<Rightarrow> ''list'' | JDict _ \<Rightarrow> ''dict'')"

section \<open>Exceptions\<close>

text \<open>
  The exceptions the orchestration core raises or meets: \<^verbatim>\<open>RuntimeError\<close> with its single
  argument, and the built-in errors with their message.
\<close>

datatype exn =
    RuntimeError json
  | AttributeError string
  | TypeError string
  | KeyError string
  | UnicodeDecodeError string

definition no_attribute :: "json \<Rightarrow> string \<Rightarrow> exn" where
  "no_attribute v attr =
     AttributeError ([CHR 0x27] @ type_name v @ [CHR 0x27] @ '' object has no attribute '' @ [CHR 0x27] @ attr @ [CHR 0x27])"

definition structured :: "string \<Rightarrow> json \<Rightarrow> exn" where
  "structured tag detail = RuntimeError (JDict [(''error'', JStr tag), (''detail'', detail)])"

section \<open>Remote job client\<close>

text \<open>
  \<^verbatim>\<open>RunPodEndpoint.status\<close>: the HTTP exchange either fails (\<^verbatim>\<open>httpx.HTTPError\<close>, given by
  its text) or delivers the decoded body.
\<close>

definition status :: "string + json \<Rightarrow> exn + json" where
  "status reply = (case reply of
       Inl msg \<Rightarrow> Inl (structured ''runpod_status_failed'' (JStr msg))
     | Inr body \<Rightarrow> Inr body)"

text \<open>
  \<^verbatim>\<open>RunPodEndpoint.submit\<close>, from the reply to \<^verbatim>\<open>POST /run\<close>.
\<close>

definition submit :: "string + json \<Rightarrow> exn + json" where
  "submit reply = (case reply of
       Inl msg \<Rightarrow> Inl (structured ''runpod_submit_failed'' (JStr msg))
     | Inr data \<Rightarrow>
         (case data of
            JDict d \<Rightarrow>
              (let job_id = py_or (py_or (dget d ''id'') (dget d ''jobId'')) (dget d ''job_id'')
               in if \<not> truthy job_id then Inl (structured ''runpod_submit_failed'' data)
                  else Inr job_id)
          | _ \<Rightarrow> Inl (no_attribute data ''get'')))"

text \<open>
  One iteration of the loop of \<^verbatim>\<open>RunPodEndpoint.wait\<close> after \<^verbatim>\<open>status\<close> has returned:
  the state tag, and the iteration's verdict (\<open>None\<close>: neither return nor raise before the
  timeout check).
\<close>

definition state_of :: "pydict \<Rightarrow> string" where
  "state_of st = py_upper (py_str (py_or (py_or (dget st ''status'') (dget st ''state'')) (JStr '''')))"

definition success_tags :: "string list" where
  "success_tags = [''COMPLETED'', ''COMPLETED_SUCCESS'', ''SUCCEEDED'']"

definition failure_tags :: "string list" where
  "failure_tags = [''FAILED'', ''FAILED_INTERNAL'', ''CANCELLED'', ''ERROR'']"

definition output_error :: "json \<Rightarrow> bool" where
  "output_error output = (case output of JDict o_d \<Rightarrow> truthy (dget o_d ''error'') | _ \<Rightarrow> False)"

definition classify :: "pydict \<Rightarrow> (exn + json) option" where
  "classify st =
     (let output = dget st ''output'';
          state = state_of st
      in if output_error output then Some (Inl (structured ''runpod_output_error'' output))
         else if state \<in> set success_tags \<or> (state = '''' \<and> truthy output) then Some (Inr (JDict st))
         else if state \<in> set failure_tags then
           Some (Inl (structured ''runpod_job_failed'' (if is_dict output then output else JDict st)))
         else None)"

text \<open>
  \<^verbatim>\<open>RunPodEndpoint.wait\<close>.  \<open>start\<close> is the reading of the monotonic clock at entry; each
  element of \<open>polls\<close> is one iteration as the environment presents it: the reply to the
  status request and the reading of the monotonic clock at that iteration's timeout check.
  The result \<open>None\<close> says that the loop is still polling after the listed iterations.
  Clock readings and the timeout are integers of one unit; \<open>timeout = None\<close> is Python's
  \<^verbatim>\<open>None\<close>.  The sleep between polls only lets time pass.
\<close>

definition timeout_truthy :: "int option \<Rightarrow> bool" where
  "timeout_truthy timeout = (case timeout of None \<Rightarrow> False | Some t \<Rightarrow> t \<noteq> 0)"

definition timeout_error :: "json \<Rightarrow> string \<Rightarrow> exn" where
  "timeout_error job_id state =
     structured ''runpod_job_timeout'' (JDict [(''job_id'', job_id), (''status'', JStr state)])"

fun wait :: "json \<Rightarrow> int option \<Rightarrow> int \<Rightarrow> ((string + json) \<times> int) list \<Rightarrow> (exn + json) option" where
  "wait job_id timeout start [] = None"
| "wait job_id timeout start ((reply, now) # polls) =
     (case status reply of
        Inl e \<Rightarrow> Some (Inl e)
      | Inr (JDict st) \<Rightarrow>
          (case classify st of
             Some r \<Rightarrow> Some r
           | None \<Rightarrow>
               if timeout_truthy timeout \<and> now - start > the timeout
               then Some (Inl (timeout_error job_id (state_of st)))
               else wait job_id timeout start polls)
      | Inr body \<Rightarrow> Some (Inl (no_attribute body ''get'')))"

text \<open>The result of \<^verbatim>\<open>wait\<close> is the error tagged \<^verbatim>\<open>runpod_job_timeout\<close>.\<close>

definition is_timeout :: "(exn + json) option \<Rightarrow> bool" where
  "is_timeout r = (\<exists>d. r = Some (Inl (RuntimeError (JDict d))) \<and>
                       map_of d ''error'' = Some (JStr ''runpod_job_timeout''))"

section \<open>Task store\<close>

text \<open>
  \<^verbatim>\<open>_json_safe\<close> on JSON-shaped values: scalars are returned as they are, the keys of a
  mapping are strings already, and a tree has no object on its own recursion path.
\<close>

primrec json_safe :: "json \<Rightarrow> json" where
  "json_safe JNull = JNull"
| "json_safe (JBool b) = JBool b"
| "json_safe (JNum n) = JNum n"
| "json_safe (JStr s) = JStr s"
| "json_safe (JList xs) = JList (map json_safe xs)"
| "json_safe (JDict kvs) = JDict (map (map_prod id json_safe) kvs)"

definition sanitize :: "pydict \<Rightarrow> pydict" where
  "sanitize job = (case json_safe (JDict job) of JDict d \<Rightarrow> d | _ \<Rightarrow> [])"

text \<open>
  The text held by a cache entry or a file: the \<^verbatim>\<open>json.dumps\<close> of a value, or text that
  \<^verbatim>\<open>json.loads\<close> rejects.
\<close>

datatype content = Encoded json | Garbage string

definition json_dumps :: "json \<Rightarrow> content" where
  "json_dumps v = Encoded v"

definition json_loads :: "content \<Rightarrow> json option" where
  "json_loads c = (case c of Encoded v \<Rightarrow> Some v | Garbage _ \<Rightarrow> None)"

text \<open>
  A file of the persistence directory as \<^verbatim>\<open>Path.read_text\<close> meets it: text; bytes that are
  not UTF-8, for which \<^verbatim>\<open>read_text\<close> raises \<^verbatim>\<open>UnicodeDecodeError\<close> with the given message; or
  a file that cannot be read, for which \<^verbatim>\<open>read_text\<close> raises \<^verbatim>\<open>OSError\<close>.
\<close>

datatype file_data = Text content | Binary string | Unreadable

text \<open>
  The world of the store: the key-value cache (each entry with the TTL it was set with), the
  files of the persistence directory, and whether the directory takes writes and removals
  (when it does not, \<^verbatim>\<open>write_text\<close> and \<^verbatim>\<open>unlink\<close> raise \<^verbatim>\<open>OSError\<close>).
\<close>

record world =
  cache :: "string \<rightharpoonup> content \<times> int"
  files :: "path \<rightharpoonup> file_data"
  writable :: bool

text \<open>A point in time: \<^verbatim>\<open>time.time()\<close> in seconds and the text of \<^verbatim>\<open>_now_iso()\<close>.\<close>

record instant =
  epoch :: int
  iso :: string

definition key :: "jobstore \<Rightarrow> json \<Rightarrow> string" where
  "key st task_id = prefix st @ '':'' @ py_str task_id"

text \<open>
  \<^verbatim>\<open>_backup_path\<close> on the value of a record's \<^verbatim>\<open>task_id\<close>.  A string is iterated by
  characters; a list or a mapping is iterated by its items, which must be strings.
\<close>

definition str_isalnum :: "string \<Rightarrow> bool" where
  "str_isalnum s = (s \<noteq> [] \<and> list_all isalnum s)"

definition keep_item :: "string \<Rightarrow> bool" where
  "keep_item s = (str_isalnum s \<or> s \<in> set ['''', ''-'', ''_'', ''.'', ''-_'', ''_.'', ''-_.''])"

fun keep_items :: "json list \<Rightarrow> exn + string" where
  "keep_items [] = Inr []"
| "keep_items (x # xs) =
     (case x of
        JStr s \<Rightarrow> (case keep_items xs of Inl e \<Rightarrow> Inl e
                    | Inr r \<Rightarrow> Inr ((if keep_item s then s else []) @ r))
      | _ \<Rightarrow> Inl (no_attribute x ''isalnum''))"

definition not_iterable :: "json \<Rightarrow> exn" where
  "not_iterable v = TypeError ([CHR 0x27] @ type_name v @ [CHR 0x27] @ '' object is not iterable'')"

definition backup_path_of :: "jobstore \<Rightarrow> json \<Rightarrow> exn + path option" where
  "backup_path_of st task_id =
     (case persist_path st of
        None \<Rightarrow> Inr None
      | Some dir \<Rightarrow>
          (case task_id of
             JStr s \<Rightarrow> Inr (backup_path st s)
           | JList xs \<Rightarrow> (case keep_items xs of Inl e \<Rightarrow> Inl e
                | Inr s \<Rightarrow> Inr (Some (dir, (if s = [] then ''task'' else s) @ ''.json'')))
           | JDict kvs \<Rightarrow> (case keep_items (map (JStr \<circ> fst) kvs) of Inl e \<Rightarrow> Inl e
                | Inr s \<Rightarrow> Inr (Some (dir, (if s = [] then ''task'' else s) @ ''.json'')))
           | _ \<Rightarrow> Inl (not_iterable task_id)))"

text \<open>\<^verbatim>\<open>Path.with_suffix\<close>: the last suffix of the name is replaced.\<close>

definition stem :: "string \<Rightarrow> string" where
  "stem name =
     (if CHR ''.'' \<in> set name then
        (let i = length name - 1 - length (takeWhile (\<lambda>c. c \<noteq> CHR ''.'') (rev name))
         in if 0 < i \<and> i < length name - 1 then take i name else name)
      else name)"

definition with_suffix :: "path \<Rightarrow> string \<Rightarrow> path" where
  "with_suffix p suffix = (fst p, stem (snd p) @ suffix)"

text \<open>
  \<^verbatim>\<open>_purge_backup\<close>: an \<^verbatim>\<open>OSError\<close> of \<^verbatim>\<open>unlink\<close> is swallowed, and the file stays.
\<close>

definition purge_backup :: "path \<Rightarrow> world \<Rightarrow> world" where
  "purge_backup p w = (if writable w then w\<lparr>files := (files w)(p := None)\<rparr> else w)"

text \<open>
  \<^verbatim>\<open>_write_backup\<close>: the text is written to the \<^verbatim>\<open>.tmp\<close> sibling, which then replaces the
  file.  When the directory takes no writes, \<^verbatim>\<open>write_text\<close> raises \<^verbatim>\<open>OSError\<close>, which is
  swallowed: the call returns normally, no \<^verbatim>\<open>.tmp\<close> file exists, and the files are as they
  were.
\<close>

definition write_backup :: "jobstore \<Rightarrow> int \<Rightarrow> pydict \<Rightarrow> world \<Rightarrow> (exn + unit) \<times> world" where
  "write_backup st now job w =
     (case backup_path_of st (case map_of job ''task_id'' of None \<Rightarrow> JStr '''' | Some t \<Rightarrow> t) of
        Inl e \<Rightarrow> (Inl e, w)
      | Inr None \<Rightarrow> (Inr (), w)
      | Inr (Some p) \<Rightarrow>
          (let payload = JDict [(''payload'', JDict job), (''expires_at'', JNum (now + persist_ttl st))];
               tmp_path = with_suffix p ''.tmp''
           in if \<not> writable w then (Inr (), w)
              else
                (let w1 = w\<lparr>files := (files w)(tmp_path \<mapsto> Text (json_dumps payload))\<rparr>;
                     w2 = w1\<lparr>files := ((files w1)(p := files w1 tmp_path))(tmp_path := None)\<rparr>
                 in (Inr (), w2))))"

text \<open>\<^verbatim>\<open>expires_at and expires_at < time.time()\<close>.\<close>

definition expired :: "json \<Rightarrow> int \<Rightarrow> exn + bool" where
  "expired expires_at now =
     (if \<not> truthy expires_at then Inr False
      else case expires_at of
             JNum n \<Rightarrow> Inr (n < now)
           | JBool b \<Rightarrow> Inr (1 < now)
           | _ \<Rightarrow> Inl (TypeError ([CHR 0x27, CHR ''<'', CHR 0x27] @ '' not supported between instances of ''
                        @ [CHR 0x27] @ type_name expires_at @ [CHR 0x27] @ '' and '' @ [CHR 0x27] @ ''float'' @ [CHR 0x27])))"

text \<open>
  \<^verbatim>\<open>_read_backup\<close>; \<^verbatim>\<open>None\<close> is \<^term>\<open>JNull\<close>.  The \<^verbatim>\<open>except\<close> clause around
  \<^verbatim>\<open>json.loads(path.read_text())\<close> catches \<^verbatim>\<open>OSError\<close> and \<^verbatim>\<open>json.JSONDecodeError\<close> only.
\<close>

definition read_backup :: "jobstore \<Rightarrow> int \<Rightarrow> string \<Rightarrow> world \<Rightarrow> (exn + json) \<times> world" where
  "read_backup st now task_id w =
     (case backup_path st task_id of
        None \<Rightarrow> (Inr JNull, w)
      | Some p \<Rightarrow>
          (case files w p of
             None \<Rightarrow> (Inr JNull, w)
           | Some (Binary msg) \<Rightarrow> (Inl (UnicodeDecodeError msg), w)
           | Some Unreadable \<Rightarrow> (Inr JNull, purge_backup p w)
           | Some (Text raw) \<Rightarrow>
               (case json_loads raw of
                  None \<Rightarrow> (Inr JNull, purge_backup p w)
                | Some (JDict data) \<Rightarrow>
                    (let expires_at = dget data ''expires_at'';
                         payload = dget data ''payload''
                     in case expired expires_at now of
                          Inl e \<Rightarrow> (Inl e, w)
                        | Inr True \<Rightarrow> (Inr JNull, purge_backup p w)
                        | Inr False \<Rightarrow>
                            if \<not> is_dict payload then (Inr JNull, purge_backup p w)
                            else (Inr payload, w))
                | Some data \<Rightarrow> (Inl (no_attribute data ''get''), w))))"

text \<open>\<^verbatim>\<open>JobStore.write\<close> (\<open>write\<close> is a keyword of Isabelle).\<close>

definition store_write :: "jobstore \<Rightarrow> int \<Rightarrow> pydict \<Rightarrow> world \<Rightarrow> (exn + pydict) \<times> world" where
  "store_write st now job w =
     (let payload = sanitize job
      in case map_of job ''task_id'' of
           None \<Rightarrow> (Inl (KeyError ([CHR 0x27] @ ''task_id'' @ [CHR 0x27])), w)
         | Some task_id \<Rightarrow>
             (let w1 = w\<lparr>cache := (cache w)(key st task_id \<mapsto> (json_dumps (JDict payload), ttl st))\<rparr>
              in case write_backup st now payload w1 of
                   (Inl e, w2) \<Rightarrow> (Inl e, w2)
                 | (Inr _, w2) \<Rightarrow> (Inr payload, w2)))"

text \<open>\<^verbatim>\<open>JobStore.get\<close>; \<^verbatim>\<open>None\<close> is \<^term>\<open>JNull\<close>.\<close>

definition get :: "jobstore \<Rightarrow> int \<Rightarrow> string \<Rightarrow> world \<Rightarrow> (exn + json) \<times> world" where
  "get st now task_id w =
     (case cache w (key st (JStr task_id)) of
        None \<Rightarrow>
          (case read_backup st now task_id w of
             (Inl e, w1) \<Rightarrow> (Inl e, w1)
           | (Inr payload, w1) \<Rightarrow>
               if \<not> truthy payload then (Inr JNull, w1)
               else (Inr payload,
                     w1\<lparr>cache := (cache w1)(key st (JStr task_id) \<mapsto> (json_dumps payload, ttl st))\<rparr>))
      | Some (raw, _) \<Rightarrow>
          (case json_loads raw of
             Some v \<Rightarrow> (Inr v, w)
           | None \<Rightarrow> (Inr JNull, w)))"

text \<open>The loop of \<^verbatim>\<open>JobStore.update_fields\<close> over the items of \<^verbatim>\<open>updates\<close>.\<close>

definition merge_field :: "pydict \<Rightarrow> string \<times> json \<Rightarrow> exn + pydict" where
  "merge_field job kv =
     (case kv of (k, v) \<Rightarrow>
        if k = ''details'' \<and> is_dict v then
          (case (case map_of job ''details'' of None \<Rightarrow> JDict [] | Some x \<Rightarrow> x) of
             JDict d \<Rightarrow> Inr (dset job ''details'' (JDict (dupdate d (case v of JDict u \<Rightarrow> u | _ \<Rightarrow> []))))
           | x \<Rightarrow> Inl (no_attribute x ''update''))
        else if k = ''progress'' \<and> is_list v then
          (case (case map_of job ''progress'' of None \<Rightarrow> JList [] | Some x \<Rightarrow> x) of
             JList xs \<Rightarrow> Inr (dset job ''progress'' (JList (xs @ (case v of JList ys \<Rightarrow> ys | _ \<Rightarrow> []))))
           | x \<Rightarrow> Inl (no_attribute x ''extend''))
        else Inr (dset job k v))"

fun merge :: "pydict \<Rightarrow> pydict \<Rightarrow> exn + pydict" where
  "merge job [] = Inr job"
| "merge job (kv # updates) =
     (case merge_field job kv of Inl e \<Rightarrow> Inl e | Inr job' \<Rightarrow> merge job' updates)"

text \<open>
  What Python raises when \<^verbatim>\<open>get\<close> has delivered a true value that is not a mapping: at
  the first item of \<^verbatim>\<open>updates\<close>, or at the assignment of \<^verbatim>\<open>updated_at\<close>.
\<close>

definition no_item_assignment :: "json \<Rightarrow> exn" where
  "no_item_assignment v =
     (case v of
        JList _ \<Rightarrow> TypeError ''list indices must be integers or slices, not str''
      | _ \<Rightarrow> TypeError ([CHR 0x27] @ type_name v @ [CHR 0x27] @ '' object does not support item assignment''))"

definition not_a_mapping :: "json \<Rightarrow> pydict \<Rightarrow> exn" where
  "not_a_mapping job updates =
     (case updates of
        [] \<Rightarrow> no_item_assignment job
      | (k, v) # _ \<Rightarrow>
          if (k = ''details'' \<and> is_dict v) \<or> (k = ''progress'' \<and> is_list v)
          then no_attribute job ''setdefault''
          else no_item_assignment job)"

text \<open>\<^verbatim>\<open>JobStore.update_fields\<close>.\<close>

definition update_fields ::
  "jobstore \<Rightarrow> instant \<Rightarrow> string \<Rightarrow> pydict \<Rightarrow> world \<Rightarrow> (exn + json) \<times> world" where
  "update_fields st now task_id updates w =
     (case get st (epoch now) task_id w of
        (Inl e, w1) \<Rightarrow> (Inl e, w1)
      | (Inr job, w1) \<Rightarrow>
          if \<not> truthy job then (Inr JNull, w1)
          else (case job of
                  JDict j \<Rightarrow>
                    (case merge j updates of
                       Inl e \<Rightarrow> (Inl e, w1)
                     | Inr j' \<Rightarrow>
                         (case store_write st (epoch now) (dset j' ''updated_at'' (JStr (iso now))) w1 of
                            (Inl e, w2) \<Rightarrow> (Inl e, w2)
                          | (Inr sanitized, w2) \<Rightarrow> (Inr (JDict sanitized), w2)))
                | _ \<Rightarrow> (Inl (not_a_mapping job updates), w1)))"

text \<open>
  \<^verbatim>\<open>JobStore.append_progress\<close>; \<open>timestamp\<close> is the \<^verbatim>\<open>_now_iso()\<close> of the entry, \<open>now\<close> the
  time at which \<^verbatim>\<open>update_fields\<close> runs.
\<close>

definition progress_entry :: "string \<Rightarrow> string \<Rightarrow> string option \<Rightarrow> pydict option \<Rightarrow> pydict" where
  "progress_entry timestamp message stage extra =
     [(''timestamp'', JStr timestamp), (''message'', JStr message)]
     @ (case stage of Some s \<Rightarrow> (if s \<noteq> [] then [(''stage'', JStr s)] else []) | None \<Rightarrow> [])
     @ (case extra of Some e \<Rightarrow> (if e \<noteq> [] then [(''extra'', JDict e)] else []) | None \<Rightarrow> [])"

definition append_progress ::
  "jobstore \<Rightarrow> string \<Rightarrow> instant \<Rightarrow> string \<Rightarrow> string \<Rightarrow> string option \<Rightarrow> pydict option \<Rightarrow> world
     \<Rightarrow> (exn + unit) \<times> world" where
  "append_progress st timestamp now task_id message stage extra w =
     (case update_fields st now task_id
             [(''progress'', JList [JDict (progress_entry timestamp message stage extra)])] w of
        (Inl e, w') \<Rightarrow> (Inl e, w')
      | (Inr _, w') \<Rightarrow> (Inr (), w'))"

text \<open>
  The merge rule of \<^verbatim>\<open>updateFields\<close> in the words of the specification: the value a field
  has after an update with the item \<open>(k, v)\<close>, from the value it had: \<^verbatim>\<open>details\<close> merges a
  provided mapping into the existing one, \<^verbatim>\<open>progress\<close> appends a provided list to the
  existing one, any other item replaces the field.
\<close>

definition spec_merged_value :: "string \<Rightarrow> json \<Rightarrow> json option \<Rightarrow> json" where
  "spec_merged_value k v old =
     (if k = ''details'' \<and> is_dict v then
        JDict (dupdate (case old of Some (JDict d) \<Rightarrow> d | _ \<Rightarrow> []) (case v of JDict u \<Rightarrow> u | _ \<Rightarrow> []))
      else if k = ''progress'' \<and> is_list v then
        JList ((case old of Some (JList xs) \<Rightarrow> xs | _ \<Rightarrow> []) @ (case v of JList ys \<Rightarrow> ys | _ \<Rightarrow> []))
      else v)"

text \<open>The existing field has the shape that the item \<open>(k, v)\<close> needs.\<close>

definition mergeable :: "pydict \<Rightarrow> string \<times> json \<Rightarrow> bool" where
  "mergeable job kv =
     ((fst kv = ''details'' \<and> is_dict (snd kv) \<longrightarrow>
         (case map_of job ''details'' of None \<Rightarrow> True | Some x \<Rightarrow> is_dict x))
    \<and> (fst kv = ''progress'' \<and> is_list (snd kv) \<longrightarrow>
         (case map_of job ''progress'' of None \<Rightarrow> True | Some x \<Rightarrow> is_list x)))"

section \<open>Pipeline engine\<close>

subsection \<open>Requests\<close>

text \<open>
  \<^verbatim>\<open>SoVitsOptions\<close> and \<^verbatim>\<open>PipelineRequest\<close> (\<^verbatim>\<open>app/pipeline.py\<close>).  The fields that
  \<^verbatim>\<open>_execute\<close> assigns hold any value; the option fields that it never inspects are kept as
  \<^verbatim>\<open>model_dump\<close> gives them.
\<close>

record sovits_options =
  reference_text :: json
  output_prefix :: string
  sovits_output_key :: json
  other_options :: pydict
  ref_text_free :: bool

record pipeline_request =
  source_keys :: "string list"
  target_key :: "string option"
  audio_key :: json
  audio_base64 :: json
  reference_audio_key :: json
  script_text :: "string option"
  output_key :: "string option"
  wav2lip_output_key :: "string option"
  sovits :: sovits_options
  retain_intermediate :: bool
  wav2lip :: pydict
  facefusion :: pydict

definition opt_json :: "string option \<Rightarrow> json" where
  "opt_json x = (case x of None \<Rightarrow> JNull | Some s \<Rightarrow> JStr s)"

definition sovits_dump :: "sovits_options \<Rightarrow> pydict" where
  "sovits_dump opts =
     [(''reference_text'', reference_text opts), (''output_prefix'', JStr (output_prefix opts)),
      (''output_key'', sovits_output_key opts)]
     @ other_options opts
     @ [(''ref_text_free'', JBool (ref_text_free opts))]"

text \<open>\<^verbatim>\<open>_request_to_dict\<close>.\<close>

definition request_to_dict :: "pipeline_request \<Rightarrow> pydict" where
  "request_to_dict request =
     [(''source_keys'', JList (map JStr (source_keys request))),
      (''target_key'', opt_json (target_key request)),
      (''audio_key'', audio_key request),
      (''audio_base64'', audio_base64 request),
      (''reference_audio_key'', reference_audio_key request),
      (''script_text'', opt_json (script_text request)),
      (''output_key'', opt_json (output_key request)),
      (''wav2lip_output_key'', opt_json (wav2lip_output_key request)),
      (''sovits'', JDict (sovits_dump (sovits request))),
      (''retain_intermediate'', JBool (retain_intermediate request)),
      (''wav2lip'', JDict (wav2lip request)),
      (''facefusion'', JDict (facefusion request))]"

text \<open>\<^verbatim>\<open>_normalise_exception\<close>; the tuple \<^verbatim>\<open>value.args\<close> is the array that the store keeps.\<close>

definition normalise_exception :: "exn \<Rightarrow> pydict" where
  "normalise_exception e =
     (case e of
        RuntimeError first \<Rightarrow>
          (case first of
             JDict d \<Rightarrow>
               (case map_of d ''error'' of
                  None \<Rightarrow> dset d ''error'' (py_or (dget d ''error'') (JStr ''runtime_error''))
                | Some _ \<Rightarrow> d)
           | _ \<Rightarrow> [(''error'', JStr ''runtime_error''), (''detail'', JList [first])])
      | AttributeError m \<Rightarrow> [(''error'', JStr ''AttributeError''), (''detail'', JStr m)]
      | TypeError m \<Rightarrow> [(''error'', JStr ''TypeError''), (''detail'', JStr m)]
      | KeyError m \<Rightarrow> [(''error'', JStr ''KeyError''), (''detail'', JStr m)]
      | UnicodeDecodeError m \<Rightarrow> [(''error'', JStr ''UnicodeDecodeError''), (''detail'', JStr m)])"

subsection \<open>Job manager\<close>

text \<open>
  A worker endpoint as one task meets it: the reply to its \<^verbatim>\<open>POST /run\<close>, the reading of
  the monotonic clock when \<^verbatim>\<open>wait\<close> is entered, and the iterations of \<^verbatim>\<open>wait\<close>.
\<close>

record endpoint =
  run_reply :: "string + json"
  wait_start :: int
  status_polls :: "((string + json) \<times> int) list"

record manager =
  store :: jobstore
  sovits_endpoint :: "endpoint option"
  wav_endpoint :: "endpoint option"
  face_endpoint :: "endpoint option"
  poll_interval :: int
  job_timeout :: int

definition opt_truthy :: "string option \<Rightarrow> bool" where
  "opt_truthy x = (case x of None \<Rightarrow> False | Some s \<Rightarrow> s \<noteq> [])"

text \<open>\<^verbatim>\<open>JobManager.submit\<close>, up to the start of the background task.\<close>

definition initial_record :: "string \<Rightarrow> pipeline_request \<Rightarrow> string \<Rightarrow> string \<Rightarrow> pydict" where
  "initial_record task_id request created updated =
     [(''task_id'', JStr task_id), (''status'', JStr ''pending''), (''state'', JStr ''pending''),
      (''stage'', JStr ''queued''), (''created_at'', JStr created), (''updated_at'', JStr updated),
      (''request'', JDict (request_to_dict request)), (''result'', JNull), (''error'', JNull),
      (''progress'', JList []), (''intermediate'', JNull), (''details'', JDict [])]"

definition manager_submit ::
  "manager \<Rightarrow> string \<Rightarrow> pipeline_request \<Rightarrow> string \<Rightarrow> instant \<Rightarrow> world \<Rightarrow> (exn + string) \<times> world" where
  "manager_submit mgr task_id request created now w =
     (let needs_wav2lip = (opt_truthy (target_key request) \<or> source_keys request \<noteq> [])
      in if needs_wav2lip \<and> wav_endpoint mgr = None then
           (Inl (RuntimeError (JStr
              ''RUNPOD_WAV2LIP_ENDPOINT and RUNPOD_API_KEY are required when target/source are provided'')), w)
         else case store_write (store mgr) (epoch now) (initial_record task_id request created (iso now)) w of
                (Inl e, w1) \<Rightarrow> (Inl e, w1)
              | (Inr _, w1) \<Rightarrow> (Inr task_id, w1))"

subsection \<open>The body of \<^verbatim>\<open>_execute\<close>\<close>

text \<open>
  The statements of the \<^verbatim>\<open>try\<close> block decide their path from the request and from what the
  workers reply, never from what the store returns.  The block is therefore the sequence
  of the calls it makes, in order, with the way it ends: by \<^verbatim>\<open>return\<close> (or by reaching its
  end), by raising, or suspended in a \<^verbatim>\<open>wait\<close> that has not returned.
\<close>

datatype stage = SoVITS | Wav2Lip | FaceFusion

datatype step =
    UpdateFields pydict
  | AppendProgress string "string option" "pydict option"
  | Submit stage json

datatype ending = Returns | Raises exn | Suspends

type_synonym 'a flow = "step list \<times> (ending + 'a)"

definition emit :: "step list \<Rightarrow> 'a flow \<Rightarrow> 'a flow" where
  "emit pre f = (pre @ fst f, snd f)"

definition stop :: "ending \<Rightarrow> 'a flow" where
  "stop e = ([], Inl e)"

definition go :: "'a \<Rightarrow> 'a flow" where
  "go x = ([], Inr x)"

definition andthen :: "'a flow \<Rightarrow> ('a \<Rightarrow> 'b flow) \<Rightarrow> 'b flow" where
  "andthen f g = (case snd f of Inl e \<Rightarrow> (fst f, Inl e) | Inr x \<Rightarrow> emit (fst f) (g x))"

text \<open>The result of \<^verbatim>\<open>submit\<close>, and of \<^verbatim>\<open>wait\<close>, in the flow of the block.\<close>

definition attempt :: "exn + 'a \<Rightarrow> 'a flow" where
  "attempt r = (case r of Inl e \<Rightarrow> stop (Raises e) | Inr v \<Rightarrow> go v)"

definition awaited :: "(exn + 'a) option \<Rightarrow> 'a flow" where
  "awaited r = (case r of None \<Rightarrow> stop Suspends | Some x \<Rightarrow> attempt x)"

definition endpoint_wait :: "manager \<Rightarrow> endpoint \<Rightarrow> json \<Rightarrow> (exn + json) option" where
  "endpoint_wait mgr ep job_id = wait job_id (Some (job_timeout mgr)) (wait_start ep) (status_polls ep)"

definition dpop :: "pydict \<Rightarrow> string \<Rightarrow> pydict" where
  "dpop d k = filter (\<lambda>kv. fst kv \<noteq> k) d"

definition running :: "string \<Rightarrow> pydict" where
  "running stg = [(''status'', JStr ''running''), (''state'', JStr ''running''), (''stage'', JStr stg)]"

text \<open>The terminal write of the success paths, with its progress message.\<close>

definition completed :: "json \<Rightarrow> string \<Rightarrow> unit flow" where
  "completed result message =
     emit [UpdateFields [(''status'', JStr ''completed''), (''state'', JStr ''completed''),
                         (''stage'', JStr ''completed''), (''result'', result), (''error'', JNull)],
           AppendProgress message (Some ''completed'') None]
       (stop Returns)"

text \<open>The voice-synthesis stage (\<^verbatim>\<open>if script_text:\<close>).\<close>

definition sovits_payload :: "pipeline_request \<Rightarrow> string \<Rightarrow> json \<Rightarrow> pydict" where
  "sovits_payload request script voice_key =
     (let options0 = sovits_dump (sovits request);
          sovits_output_key0 = dget options0 ''output_key'';
          options1 = dpop options0 ''output_key'';
          options2 = dpop options1 ''reference_text'';
          options3 = dpop options2 ''reference_text_key'';
          options_payload = dset options3 ''ref_text_free'' (JBool True)
      in [(''reference_audio_key'', voice_key),
          (''target_text'', JStr script),
          (''reference_text'', JStr ''''),
          (''ref_text_free'', JBool True),
          (''output_key'', py_or (sovits_output_key (sovits request)) sovits_output_key0),
          (''options'', JDict options_payload)])"

definition sovits_stage ::
  "manager \<Rightarrow> pipeline_request \<Rightarrow> string \<Rightarrow> json \<Rightarrow> (pipeline_request \<times> pydict) flow" where
  "sovits_stage mgr request script voice_key =
     (case sovits_endpoint mgr of
        None \<Rightarrow> stop (Raises (structured ''sovits_not_configured''
                       (JStr ''RUNPOD_SOVITS_ENDPOINT is required for SoVITS'')))
      | Some ep \<Rightarrow>
          if \<not> truthy voice_key then
            stop (Raises (structured ''missing_reference_audio''
                    (JStr ''reference_audio_key or audio_key is required'')))
          else
            emit [UpdateFields (running ''sovits''),
                  AppendProgress ''Submitting SoVITS job'' (Some ''sovits'') None,
                  Submit SoVITS (JDict (sovits_payload request script voice_key))]
             (andthen (attempt (submit (run_reply ep))) (\<lambda>sovits_job_id.
              emit [UpdateFields [(''details'', JDict [(''sovits_job_id'', sovits_job_id)])],
                    AppendProgress ''SoVITS job submitted'' (Some ''sovits'') (Some [(''job_id'', sovits_job_id)])]
               (andthen (awaited (endpoint_wait mgr ep sovits_job_id)) (\<lambda>sovits_status.
                 case sovits_status of
                   JDict ss \<Rightarrow>
                     (case dget ss ''output'' of
                        JDict sovits_output \<Rightarrow>
                          (let output_key0 = dget sovits_output ''output_key''
                           in if \<not> truthy output_key0 then
                                stop (Raises (structured ''missing_sovits_output_key'' (JDict sovits_output)))
                              else
                                (let audio_base64_0 = dget sovits_output ''audio_base64'';
                                     request1 = (if truthy audio_base64_0
                                                 then request\<lparr>audio_base64 := audio_base64_0\<rparr> else request);
                                     request2 = request1\<lparr>audio_key := output_key0,
                                                         reference_audio_key := voice_key\<rparr>
                                 in emit [UpdateFields [(''details'', JDict [(''sovits_status'', sovits_status)]),
                                                        (''intermediate'', JDict [(''sovits'', JDict sovits_output)])],
                                          AppendProgress ''SoVITS completed'' (Some ''sovits'') None]
                                      (go (request2, sovits_output))))
                      | _ \<Rightarrow> stop (Raises (structured ''no_sovits_output'' sovits_status)))
                 | _ \<Rightarrow> stop (Raises (no_attribute sovits_status ''get'')))))))"

text \<open>The audio-only path (\<^verbatim>\<open>if not request.target_key and not request.source_keys:\<close>).\<close>

definition audio_only :: "pipeline_request \<Rightarrow> pydict option \<Rightarrow> unit flow" where
  "audio_only request sovits_result =
     (let final_result =
            (if (case sovits_result of Some r \<Rightarrow> r \<noteq> [] | None \<Rightarrow> False)
             then dupdate [] (case sovits_result of Some r \<Rightarrow> r | None \<Rightarrow> [])
             else if truthy (audio_key request) then [(''output_key'', audio_key request)]
             else [])
      in completed (if final_result \<noteq> [] then JDict final_result else JNull)
           ''Audio-only pipeline completed'')"

text \<open>
  \<^verbatim>\<open>final_result.setdefault("intermediate", {}).update(intermediate)\<close> on the output of the
  face-swap worker.
\<close>

definition attach :: "pydict \<Rightarrow> pydict \<Rightarrow> exn + pydict" where
  "attach final_result intermediate =
     (if intermediate = [] then Inr final_result
      else case map_of final_result ''intermediate'' of
             None \<Rightarrow> Inr (dset final_result ''intermediate'' (JDict (dupdate [] intermediate)))
           | Some (JDict d) \<Rightarrow> Inr (dset final_result ''intermediate'' (JDict (dupdate d intermediate)))
           | Some x \<Rightarrow> Inl (no_attribute x ''update''))"

text \<open>
  The same statement on \<^verbatim>\<open>final_result = dict(wav_result)\<close>, when no face-swap follows.  The
  entry \<^verbatim>\<open>intermediate["wav2lip"]\<close> is another shallow copy of \<^verbatim>\<open>wav_result\<close>: an
  \<^verbatim>\<open>intermediate\<close> mapping in the worker's output is one object in both copies, the update
  puts the second copy into it, and what \<^verbatim>\<open>_json_safe\<close> stores of this cycle has the text
  \<^verbatim>\<open><circular>\<close> where the mapping is met again.  The result is given as it is stored.
\<close>

definition attach_shared :: "pydict \<Rightarrow> pydict \<Rightarrow> exn + pydict" where
  "attach_shared wav_result intermediate =
     (if intermediate = [] then Inr wav_result
      else case map_of wav_result ''intermediate'' of
             None \<Rightarrow> Inr (dset wav_result ''intermediate'' (JDict (dupdate [] intermediate)))
           | Some (JDict d) \<Rightarrow>
               (let again = dset wav_result ''intermediate'' (JStr ''<circular>'')
                in Inr (dset wav_result ''intermediate''
                          (JDict (dupdate d (dset intermediate ''wav2lip'' (JDict again))))))
           | Some x \<Rightarrow> Inl (no_attribute x ''update''))"

text \<open>The face-swap stage (\<^verbatim>\<open>if request.source_keys:\<close>).\<close>

definition facefusion_stage :: "manager \<Rightarrow> pydict \<Rightarrow> pydict \<Rightarrow> pydict \<Rightarrow> unit flow" where
  "facefusion_stage mgr request_dict wav_result intermediate =
     (case face_endpoint mgr of
        None \<Rightarrow> stop (Raises (structured ''facefusion_not_configured''
                       (JStr ''RUNPOD_FACEFUSION_ENDPOINT is required for facefusion'')))
      | Some ep \<Rightarrow>
          emit [UpdateFields [(''stage'', JStr ''facefusion'')],
                AppendProgress ''Submitting FaceFusion job'' (Some ''facefusion'') None,
                Submit FaceFusion (JDict [(''request'', JDict request_dict),
                                          (''wav2lip'', dget wav_result ''wav2lip'')])]
           (andthen (attempt (submit (run_reply ep))) (\<lambda>face_job_id.
            emit [UpdateFields [(''details'', JDict [(''facefusion_job_id'', face_job_id)])],
                  AppendProgress ''FaceFusion job submitted'' (Some ''facefusion'') (Some [(''job_id'', face_job_id)])]
             (andthen (awaited (endpoint_wait mgr ep face_job_id)) (\<lambda>face_status.
               case face_status of
                 JDict fs \<Rightarrow>
                   (case dget fs ''output'' of
                      JDict face_output \<Rightarrow>
                        (case attach face_output intermediate of
                           Inl e \<Rightarrow> stop (Raises e)
                         | Inr final_result \<Rightarrow>
                             emit [AppendProgress ''FaceFusion completed'' (Some ''facefusion'') None,
                                   UpdateFields [(''details'', JDict [(''facefusion_status'',
                                                    JDict (dset fs ''output'' (JDict final_result)))])]]
                               (completed (JDict final_result) ''Pipeline completed''))
                    | _ \<Rightarrow> stop (Raises (structured ''no_facefusion_output'' face_status)))
               | _ \<Rightarrow> stop (Raises (no_attribute face_status ''get'')))))))"

text \<open>The lip-sync stage, and what follows it.\<close>

definition wav_result_of :: "json \<Rightarrow> pydict option" where
  "wav_result_of wav_output =
     (case wav_output of
        JDict d \<Rightarrow> Some d
      | JStr s \<Rightarrow> Some [(''output_url'', JStr s)]
      | _ \<Rightarrow> None)"

definition lipsync :: "manager \<Rightarrow> pipeline_request \<Rightarrow> pydict \<Rightarrow> unit flow" where
  "lipsync mgr request intermediate0 =
     emit [UpdateFields (running ''wav2lip''),
           AppendProgress ''Submitting Wav2Lip job'' (Some ''wav2lip'') None]
      (let request_dict = request_to_dict request
       in case wav_endpoint mgr of
            None \<Rightarrow> stop (Raises (no_attribute JNull ''submit''))
          | Some ep \<Rightarrow>
              emit [Submit Wav2Lip (JDict request_dict)]
               (andthen (attempt (submit (run_reply ep))) (\<lambda>wav_job_id.
                emit [UpdateFields [(''details'', JDict [(''wav2lip_job_id'', wav_job_id)])],
                      AppendProgress ''Wav2Lip job submitted'' (Some ''wav2lip'') (Some [(''job_id'', wav_job_id)])]
                 (andthen (awaited (endpoint_wait mgr ep wav_job_id)) (\<lambda>wav_status.
                   case wav_status of
                     JDict ws \<Rightarrow>
                       (case wav_result_of (dget ws ''output'') of
                          None \<Rightarrow> stop (Raises (structured ''no_wav2lip_output'' wav_status))
                        | Some wav_result \<Rightarrow>
                            (let intermediate = dset intermediate0 ''wav2lip'' (JDict wav_result)
                             in emit [UpdateFields [(''intermediate'', JDict intermediate),
                                                    (''details'', JDict [(''wav2lip_status'', wav_status)])],
                                      AppendProgress ''Wav2Lip completed'' (Some ''wav2lip'') None]
                                 (if source_keys request \<noteq> [] then
                                    facefusion_stage mgr request_dict wav_result intermediate
                                  else
                                    (case attach_shared wav_result intermediate of
                                       Inl e \<Rightarrow> stop (Raises e)
                                     | Inr final_result \<Rightarrow>
                                         completed (JDict final_result) ''Pipeline completed''))))
                   | _ \<Rightarrow> stop (Raises (no_attribute wav_status ''get'')))))))"

text \<open>The \<^verbatim>\<open>try\<close> block of \<^verbatim>\<open>JobManager._execute\<close>.\<close>

definition plan :: "manager \<Rightarrow> pipeline_request \<Rightarrow> unit flow" where
  "plan mgr request =
     (let script = py_strip (case script_text request of None \<Rightarrow> [] | Some s \<Rightarrow> s);
          voice_key = py_or (reference_audio_key request) (audio_key request)
      in andthen
           (if script \<noteq> [] then
              andthen (sovits_stage mgr request script voice_key)
                (\<lambda>r. go (fst r, Some (snd r), [(''sovits'', JDict (snd r))]))
            else if \<not> truthy (audio_key request) \<and> \<not> truthy (audio_base64 request) then
              stop (Raises (structured ''missing_audio_key'' (JStr ''audio_key or audio_base64 is required'')))
            else go (request, None, []))
           (\<lambda>r. case r of (request', sovits_result, intermediate) \<Rightarrow>
              if \<not> opt_truthy (target_key request') \<and> source_keys request' = [] then
                audio_only request' sovits_result
              else lipsync mgr request' intermediate))"

text \<open>The \<^verbatim>\<open>except Exception\<close> handler of \<^verbatim>\<open>_execute\<close>.\<close>

definition failure_steps :: "exn \<Rightarrow> step list" where
  "failure_steps e =
     (let error_payload = normalise_exception e
      in [UpdateFields [(''status'', JStr ''failed''), (''state'', JStr ''failed''),
                        (''stage'', JStr ''failed''), (''error'', JDict error_payload)],
          AppendProgress ''Pipeline failed'' (Some ''failed'') (Some error_payload)])"

subsection \<open>Running \<^verbatim>\<open>_execute\<close> against the store\<close>

text \<open>The jobs that a sequence of calls hands to \<^verbatim>\<open>submit\<close>.\<close>

fun submits :: "step list \<Rightarrow> (stage \<times> json) list" where
  "submits [] = []"
| "submits (Submit stg payload # steps) = (stg, payload) # submits steps"
| "submits (_ # steps) = submits steps"

text \<open>
  The state of a run: the world, the number of clock readings so far, the world after every
  store call made, and the calls made, in order.  The function \<open>clock\<close> gives the successive
  readings of the wall clock: \<^verbatim>\<open>update_fields\<close> takes one, \<^verbatim>\<open>append_progress\<close> two (the
  entry's timestamp, then \<^verbatim>\<open>update_fields\<close>).
\<close>

record run =
  current :: world
  ticks :: nat
  history :: "world list"
  calls :: "step list"

definition submitted :: "run \<Rightarrow> (stage \<times> json) list" where
  "submitted r = submits (calls r)"

definition do_step :: "jobstore \<Rightarrow> (nat \<Rightarrow> instant) \<Rightarrow> string \<Rightarrow> step \<Rightarrow> run \<Rightarrow> exn option \<times> run" where
  "do_step st clock task_id s r =
     (case s of
        UpdateFields updates \<Rightarrow>
          (case update_fields st (clock (ticks r)) task_id updates (current r) of
             (res, w') \<Rightarrow>
               ((case res of Inl e \<Rightarrow> Some e | Inr _ \<Rightarrow> None),
                r\<lparr>current := w', ticks := ticks r + 1, history := history r @ [w'],
                  calls := calls r @ [s]\<rparr>))
      | AppendProgress message stg extra \<Rightarrow>
          (case append_progress st (iso (clock (ticks r))) (clock (ticks r + 1)) task_id message stg extra
                  (current r) of
             (res, w') \<Rightarrow>
               ((case res of Inl e \<Rightarrow> Some e | Inr _ \<Rightarrow> None),
                r\<lparr>current := w', ticks := ticks r + 2, history := history r @ [w'],
                  calls := calls r @ [s]\<rparr>))
      | Submit stg payload \<Rightarrow> (None, r\<lparr>calls := calls r @ [s]\<rparr>))"

fun run_steps :: "jobstore \<Rightarrow> (nat \<Rightarrow> instant) \<Rightarrow> string \<Rightarrow> step list \<Rightarrow> run \<Rightarrow> exn option \<times> run" where
  "run_steps st clock task_id [] r = (None, r)"
| "run_steps st clock task_id (s # steps) r =
     (case do_step st clock task_id s r of
        (Some e, r') \<Rightarrow> (Some e, r')
      | (None, r') \<Rightarrow> run_steps st clock task_id steps r')"

text \<open>
  How \<^verbatim>\<open>_execute\<close> ends: its block has returned; the handler has recorded the failure; an
  exception raised inside the handler has left the coroutine; or the coroutine is suspended.
\<close>

datatype outcome = Done | Handled exn | Escaped exn | Suspended

definition handle_failure :: "jobstore \<Rightarrow> (nat \<Rightarrow> instant) \<Rightarrow> string \<Rightarrow> exn \<Rightarrow> run \<Rightarrow> outcome \<times> run" where
  "handle_failure st clock task_id e r =
     (case run_steps st clock task_id (failure_steps e) r of
        (Some e', r') \<Rightarrow> (Escaped e', r')
      | (None, r') \<Rightarrow> (Handled e, r'))"

definition execute ::
  "manager \<Rightarrow> (nat \<Rightarrow> instant) \<Rightarrow> string \<Rightarrow> pipeline_request \<Rightarrow> world \<Rightarrow> outcome \<times> run" where
  "execute mgr clock task_id request w =
     (let body = plan mgr request;
          r0 = \<lparr>current = w, ticks = 0, history = [], calls = []\<rparr>
      in case run_steps (store mgr) clock task_id (fst body) r0 of
           (Some e, r1) \<Rightarrow> handle_failure (store mgr) clock task_id e r1
         | (None, r1) \<Rightarrow>
             (case snd body of
                Inl Returns \<Rightarrow> (Done, r1)
              | Inl (Raises e) \<Rightarrow> handle_failure (store mgr) clock task_id e r1
              | Inl Suspends \<Rightarrow> (Suspended, r1)
              | Inr _ \<Rightarrow> (Done, r1)))"

text \<open>The record that the cache holds for a task.\<close>

definition stored :: "jobstore \<Rightarrow> string \<Rightarrow> world \<Rightarrow> json option" where
  "stored st task_id w =
     (case cache w (key st (JStr task_id)) of
        None \<Rightarrow> None
      | Some (raw, _) \<Rightarrow> json_loads raw)"

text \<open>
  The selection rule of the specification: voice synthesis is selected when the script is
  not empty after trimming, lip-sync when a target or a source is present, face-swap when a
  source is present.
\<close>

definition selected :: "pipeline_request \<Rightarrow> stage \<Rightarrow> bool" where
  "selected request stg =
     (case stg of
        SoVITS \<Rightarrow> py_strip (case script_text request of None \<Rightarrow> [] | Some s \<Rightarrow> s) \<noteq> []
      | Wav2Lip \<Rightarrow> opt_truthy (target_key request) \<or> source_keys request \<noteq> []
      | FaceFusion \<Rightarrow> source_keys request \<noteq> [])"

text \<open>A wall clock for the examples: one second per reading.\<close>

definition tick_clock :: "nat \<Rightarrow> instant" where
  "tick_clock n = \<lparr>epoch = int n, iso = ''T+'' @ digits n\<rparr>"

text \<open>Values for the examples.\<close>

definition example_store :: jobstore where
  "example_store = \<lparr>prefix = ''ff:task'', ttl = 604800, persist_ttl = 604800, persist_path = None\<rparr>"

definition example_request :: pipeline_request where
  "example_request =
     \<lparr>source_keys = [], target_key = None, audio_key = JNull, audio_base64 = JNull,
      reference_audio_key = JNull, script_text = None, output_key = None, wav2lip_output_key = None,
      sovits = \<lparr>reference_text = JNull, output_prefix = ''outputs/sovits'', sovits_output_key = JNull,
                other_options = [], ref_text_free = False\<rparr>,
      retain_intermediate = True, wav2lip = [], facefusion = []\<rparr>"

definition example_manager :: manager where
  "example_manager =
     \<lparr>store = example_store, sovits_endpoint = None, wav_endpoint = None, face_endpoint = None,
      poll_interval = 5, job_timeout = 1800\<rparr>"

text \<open>A worker that accepts the job under the given ID and has completed it at the first poll.\<close>

definition example_endpoint :: "string \<Rightarrow> json \<Rightarrow> endpoint" where
  "example_endpoint job_id result =
     \<lparr>run_reply = Inr (JDict [(''id'', JStr job_id)]), wait_start = 0,
      status_polls = [(Inr (JDict [(''status'', JStr ''COMPLETED''), (''output'', result)]), 3)]\<rparr>"

definition empty_world :: world where
  "empty_world = \<lparr>cache = Map.empty, files = Map.empty, writable = True\<rparr>"

text \<open>The world in which \<^verbatim>\<open>_execute\<close> starts: \<^verbatim>\<open>submit\<close> has written the initial record.\<close>

definition submitted_world :: "manager \<Rightarrow> string \<Rightarrow> pipeline_request \<Rightarrow> world" where
  "submitted_world mgr task_id request =
     snd (manager_submit mgr task_id request (iso (tick_clock 0)) (tick_clock 0) empty_world)"

text \<open>
  A full-chain example without voice synthesis.  The output of the lip-sync worker has the
  shape that \<^verbatim>\<open>run_wav2lip\<close> (\<^verbatim>\<open>app/pipeline.py\<close>) returns when sources are given: the request
  and, under \<^verbatim>\<open>wav2lip\<close>, the lip-sync result.
\<close>

definition face_request :: pipeline_request where
  "face_request = example_request\<lparr>audio_key := JStr ''in/a.wav'', target_key := Some ''in/v.mp4'',
                                   source_keys := [''in/f.png'']\<rparr>"

definition face_manager :: manager where
  "face_manager = example_manager\<lparr>
      wav_endpoint := Some (example_endpoint ''w-1''
         (JDict [(''request'', JDict []), (''wav2lip'', JDict [(''output_key'', JStr ''out/w.mp4'')])])),
      face_endpoint := Some (example_endpoint ''f-1'' (JDict [(''output_key'', JStr ''out/f.mp4'')]))\<rparr>"

section \<open>Properties\<close>

lemma ascii_alnum_isalnum: "ascii_alnum c \<Longrightarrow> isalnum c"
  by (auto simp: ascii_alnum_def isalnum_def Let_def)

lemma isalnum_ascii:
  "(of_char c :: nat) < 128 \<Longrightarrow> isalnum c = ascii_alnum c"
  by (auto simp: ascii_alnum_def isalnum_def Let_def)

text \<open>
  C8 as stated: the backup file name keeps exactly the characters of the task ID in
  \<^verbatim>\<open>[A-Za-z0-9._-]\<close>.  The code filters with \<^verbatim>\<open>str.isalnum\<close>, which also accepts
  letters and digits beyond ASCII: the one-character ID U+00E9 keeps its character.
\<close>

theorem C8_backup_name_counterexample:
  "backup_path \<lparr>prefix = ''ff:task'', ttl = 60, persist_ttl = 60, persist_path = Some ''/store''\<rparr>
      [CHR 0xE9]
   \<noteq> Some (''/store'', (let s = filter ascii_safe [CHR 0xE9] in if s = [] then ''task'' else s) @ ''.json'')"
  by (simp add: backup_path_def safe_id_def isalnum_def ascii_safe_def ascii_alnum_def)

text \<open>
  C8 (amended): with a persistence directory \<open>dir\<close>, the backup file of a task ID lives in
  \<open>dir\<close>; its name is the \<^verbatim>\<open>.json\<close> suffix after the ID's characters that are alphanumeric
  for \<^verbatim>\<open>str.isalnum\<close> or one of \<^verbatim>\<open>- _ .\<close>, in order, and after \<^verbatim>\<open>task\<close> when no character
  is kept; on IDs of ASCII characters the kept characters are exactly those in
  \<^verbatim>\<open>[A-Za-z0-9._-]\<close>.
\<close>

theorem C8_backup_name:
  "backup_path (st\<lparr>persist_path := Some dir\<rparr>) task_id =
     Some (dir, (let s = filter (\<lambda>ch. isalnum ch \<or> ch \<in> set ''-_.'') task_id
                 in if s = [] then ''task'' else s) @ ''.json'')
   \<and> ((\<forall>ch \<in> set task_id. (of_char ch :: nat) < 128) \<longrightarrow>
        backup_path (st\<lparr>persist_path := Some dir\<rparr>) task_id =
          Some (dir, (let s = filter ascii_safe task_id
                      in if s = [] then ''task'' else s) @ ''.json''))"
proof -
  have "(\<forall>ch \<in> set task_id. (of_char ch :: nat) < 128) \<Longrightarrow>
        filter (\<lambda>ch. isalnum ch \<or> ch \<in> set ''-_.'') task_id = filter ascii_safe task_id"
    by (rule filter_cong) (auto simp: isalnum_ascii ascii_safe_def)
  then show ?thesis
    by (simp add: backup_path_def safe_id_def)
qed

theorem C8_backup_name_witness:
  "backup_path \<lparr>prefix = ''ff:task'', ttl = 60, persist_ttl = 60, persist_path = Some ''/store''\<rparr>
      ''a/b c.1'' = Some (''/store'', ''abc.1.json'')"
  using C8_backup_name [where st = "\<lparr>prefix = ''ff:task'', ttl = 60, persist_ttl = 60, persist_path = None\<rparr>"
      and dir = "''/store''" and task_id = "''a/b c.1''"]
  by (simp add: ascii_safe_def ascii_alnum_def isalnum_def)


subsection \<open>Remote job client: classification of a polled status\<close>

lemma wait_dict_step:
  "wait job_id timeout start ((Inr (JDict st), now) # polls) =
     (case classify st of
        Some r \<Rightarrow> Some r
      | None \<Rightarrow> if timeout_truthy timeout \<and> now - start > the timeout
                then Some (Inl (timeout_error job_id (state_of st)))
                else wait job_id timeout start polls)"
  by (simp add: status_def)

text \<open>
  C3 as stated: an output that is a mapping containing an \<^verbatim>\<open>error\<close> key makes \<^verbatim>\<open>wait\<close>
  fail with \<^verbatim>\<open>runpod_output_error\<close>.  The code tests the value under the key for truth:
  the status \<^verbatim>\<open>{"status": "COMPLETED", "output": {"error": null}}\<close> is returned.
\<close>

theorem C3_error_key_counterexample:
  "map_of [(''error'', JNull)] ''error'' \<noteq> None \<and>
   wait (JStr ''job-1'') (Some 1800) 0
     [(Inr (JDict [(''status'', JStr ''COMPLETED''), (''output'', JDict [(''error'', JNull)])]), 5)]
   = Some (Inr (JDict [(''status'', JStr ''COMPLETED''), (''output'', JDict [(''error'', JNull)])]))"
  by (simp add: status_def classify_def output_error_def dget_def state_of_def py_or_def py_str_def
      py_upper_def upper_char_def success_tags_def)

text \<open>
  C3 (amended): for every poll iteration whose status object is \<open>st\<close>, with \<open>tag\<close> the
  upper-cased string of the first true value among \<^verbatim>\<open>status\<close>, \<^verbatim>\<open>state\<close> and \<^verbatim>\<open>""\<close>:
  if the output is a mapping whose \<^verbatim>\<open>error\<close> entry is true, \<^verbatim>\<open>wait\<close> fails with
  \<^verbatim>\<open>runpod_output_error\<close> carrying the output, whatever the tag; otherwise, if the tag
  is a success tag, or the tag is empty and the output is true, \<^verbatim>\<open>wait\<close> returns the
  status; otherwise, if the tag is a failure tag, \<^verbatim>\<open>wait\<close> fails with
  \<^verbatim>\<open>runpod_job_failed\<close> whose detail is the output when it is a mapping and the whole
  status otherwise.
\<close>

theorem C3_wait_precedence:
  fixes st :: pydict
  defines "output \<equiv> dget st ''output''"
  defines "tag \<equiv> py_upper (py_str (py_or (py_or (dget st ''status'') (dget st ''state'')) (JStr '''')))"
  defines "witherr \<equiv> (\<exists>o_d. output = JDict o_d \<and> truthy (dget o_d ''error''))"
  defines "done \<equiv> (tag \<in> {''COMPLETED'', ''COMPLETED_SUCCESS'', ''SUCCEEDED''} \<or> (tag = '''' \<and> truthy output))"
  shows "(witherr \<longrightarrow>
            wait job_id timeout start ((Inr (JDict st), now) # polls) =
              Some (Inl (RuntimeError (JDict [(''error'', JStr ''runpod_output_error''), (''detail'', output)]))))
       \<and> (\<not> witherr \<and> done \<longrightarrow>
            wait job_id timeout start ((Inr (JDict st), now) # polls) = Some (Inr (JDict st)))
       \<and> (\<not> witherr \<and> \<not> done \<and> tag \<in> {''FAILED'', ''FAILED_INTERNAL'', ''CANCELLED'', ''ERROR''} \<longrightarrow>
            wait job_id timeout start ((Inr (JDict st), now) # polls) =
              Some (Inl (RuntimeError (JDict [(''error'', JStr ''runpod_job_failed''),
                 (''detail'', (case output of JDict _ \<Rightarrow> output | _ \<Rightarrow> JDict st))]))))"
proof -
  have oe: "output_error output = witherr"
    by (auto simp: output_error_def witherr_def split: json.splits)
  have tg: "state_of st = tag"
    by (simp add: state_of_def tag_def)
  have dn: "(state_of st \<in> set success_tags \<or> (state_of st = '''' \<and> truthy output)) = done"
    unfolding tg done_def success_tags_def by auto
  have fl: "(state_of st \<in> set failure_tags) = (tag \<in> {''FAILED'', ''FAILED_INTERNAL'', ''CANCELLED'', ''ERROR''})"
    unfolding tg failure_tags_def by auto
  have cl: "classify st =
     (if witherr then Some (Inl (structured ''runpod_output_error'' output))
      else if done then Some (Inr (JDict st))
      else if tag \<in> {''FAILED'', ''FAILED_INTERNAL'', ''CANCELLED'', ''ERROR''} then
        Some (Inl (structured ''runpod_job_failed'' (if is_dict output then output else JDict st)))
      else None)"
    using oe dn fl by (simp add: classify_def Let_def output_def [symmetric])
  have dt: "(if is_dict output then output else JDict st) = (case output of JDict _ \<Rightarrow> output | _ \<Rightarrow> JDict st)"
    by (simp add: is_dict_def split: json.splits)
  show ?thesis
    unfolding wait_dict_step cl
    by (simp add: structured_def dt)
qed

lemma py_upper_Nil: "py_upper [] = []"
  by (simp add: py_upper_def)

lemma upper_cancelled: "py_upper ''cancelled'' = ''CANCELLED''"
  by code_simp

lemma upper_failed: "py_upper ''FAILED'' = ''FAILED''"
  by code_simp

theorem C3_wait_precedence_witness:
  "wait (JStr ''job-1'') (Some 1800) 0
     [(Inr (JDict [(''status'', JStr ''FAILED''), (''output'', JDict [(''error'', JStr ''oom'')])]), 5)]
     = Some (Inl (RuntimeError (JDict [(''error'', JStr ''runpod_output_error''),
          (''detail'', JDict [(''error'', JStr ''oom'')])])))
   \<and> wait (JStr ''job-1'') (Some 1800) 0
     [(Inr (JDict [(''output'', JStr ''https://r2/out.mp4'')]), 5)]
     = Some (Inr (JDict [(''output'', JStr ''https://r2/out.mp4'')]))
   \<and> wait (JStr ''job-1'') (Some 1800) 0
     [(Inr (JDict [(''state'', JStr ''cancelled'')]), 5)]
     = Some (Inl (RuntimeError (JDict [(''error'', JStr ''runpod_job_failed''),
          (''detail'', JDict [(''state'', JStr ''cancelled'')])])))"
  using
    C3_wait_precedence [of "[(''status'', JStr ''FAILED''), (''output'', JDict [(''error'', JStr ''oom'')])]"
      "JStr ''job-1''" "Some 1800" 0 5 "[]"]
    C3_wait_precedence [of "[(''output'', JStr ''https://r2/out.mp4'')]"
      "JStr ''job-1''" "Some 1800" 0 5 "[]"]
    C3_wait_precedence [of "[(''state'', JStr ''cancelled'')]"
      "JStr ''job-1''" "Some 1800" 0 5 "[]"]
  by (simp add: dget_def py_or_def py_str_def upper_cancelled upper_failed py_upper_Nil del: wait.simps)

subsection \<open>Remote job client: the timeout of \<^verbatim>\<open>wait\<close>\<close>

lemma classify_not_timeout: "\<not> is_timeout (classify st)"
  by (auto simp: classify_def is_timeout_def structured_def Let_def)

lemma wait_falsy_no_timeout:
  "\<not> timeout_truthy timeout \<Longrightarrow> \<not> is_timeout (wait job_id timeout start polls)"
proof (induction polls)
  case Nil
  show ?case by (simp add: is_timeout_def)
next
  case (Cons p polls)
  obtain reply now where p: "p = (reply, now)" by (cases p)
  show ?case
  proof (cases "status reply")
    case (Inl e)
    then have "\<exists>msg. e = structured ''runpod_status_failed'' (JStr msg)"
      by (auto simp: status_def split: sum.splits)
    with Inl show ?thesis
      by (auto simp: p is_timeout_def structured_def)
  next
    case (Inr body)
    show ?thesis
    proof (cases body)
      case (JDict st)
      show ?thesis
      proof (cases "classify st")
        case None
        with Inr JDict Cons show ?thesis by (simp add: p)
      next
        case (Some r)
        with classify_not_timeout [of st] Inr JDict show ?thesis by (simp add: p)
      qed
    qed (use Inr in \<open>simp_all add: p is_timeout_def no_attribute_def\<close>)
  qed
qed

lemma wait_falsy_polls_on:
  "\<not> timeout_truthy timeout \<Longrightarrow>
   \<forall>p \<in> set polls. \<exists>st. fst p = Inr (JDict st) \<and> classify st = None \<Longrightarrow>
   wait job_id timeout start polls = None"
proof (induction polls)
  case Nil
  show ?case by simp
next
  case (Cons p polls)
  obtain reply now where p: "p = (reply, now)" by (cases p)
  from Cons.prems(2) obtain st where st: "reply = Inr (JDict st)" "classify st = None"
    by (auto simp: p)
  from Cons have "wait job_id timeout start polls = None" by simp
  with st Cons.prems(1) show ?case by (simp add: p status_def)
qed

text \<open>
  C9: \<^verbatim>\<open>wait\<close> raises \<^verbatim>\<open>runpod_job_timeout\<close> only when its timeout is true: with the
  timeout \<^verbatim>\<open>None\<close> or \<open>0\<close> no run of the loop, whatever the replies and the clock, ends in
  that error, and as long as the polled statuses are not terminal the loop keeps polling;
  no result exists before the first poll has completed, and a first poll that decides is
  obeyed whatever the clock reads, also when the deadline had passed at entry.
\<close>

theorem C9_wait_timeout:
  "(timeout = None \<or> timeout = Some 0 \<longrightarrow>
       \<not> is_timeout (wait job_id timeout start polls)
     \<and> ((\<forall>p \<in> set polls. \<exists>st. fst p = Inr (JDict st) \<and> classify st = None) \<longrightarrow>
          wait job_id timeout start polls = None))
   \<and> wait job_id timeout start [] = None
   \<and> (classify st = Some r \<longrightarrow>
        wait job_id timeout start ((Inr (JDict st), now) # polls) = Some r)"
proof -
  have "timeout = None \<or> timeout = Some 0 \<Longrightarrow> \<not> timeout_truthy timeout"
    by (auto simp: timeout_truthy_def)
  then show ?thesis
    using wait_falsy_no_timeout [of timeout job_id start polls]
      wait_falsy_polls_on [of timeout polls job_id start]
    by (auto simp: status_def)
qed

lemma classify_in_queue: "classify [(''status'', JStr ''IN_QUEUE'')] = None"
  by (simp add: classify_def output_error_def dget_def state_of_def py_or_def py_str_def
      py_upper_def upper_char_def success_tags_def failure_tags_def)

lemma classify_completed:
  "classify [(''status'', JStr ''COMPLETED'')] = Some (Inr (JDict [(''status'', JStr ''COMPLETED'')]))"
  by (simp add: classify_def output_error_def dget_def state_of_def py_or_def py_str_def
      py_upper_def upper_char_def success_tags_def failure_tags_def)

theorem C9_wait_timeout_witness:
  "\<not> is_timeout (wait (JStr ''job-1'') (Some 0) 0
       [(Inr (JDict [(''status'', JStr ''IN_QUEUE'')]), 10), (Inr (JDict [(''status'', JStr ''IN_QUEUE'')]), 5000)])
   \<and> wait (JStr ''job-1'') (Some 0) 0
       [(Inr (JDict [(''status'', JStr ''IN_QUEUE'')]), 10), (Inr (JDict [(''status'', JStr ''IN_QUEUE'')]), 5000)] = None
   \<and> wait (JStr ''job-1'') (Some 2) 0 [] = None
   \<and> wait (JStr ''job-1'') (Some 2) 0 [(Inr (JDict [(''status'', JStr ''COMPLETED'')]), 100)]
        = Some (Inr (JDict [(''status'', JStr ''COMPLETED'')]))"
  using
    C9_wait_timeout [where timeout = "Some 0" and job_id = "JStr ''job-1''" and start = 0
      and polls = "[(Inr (JDict [(''status'', JStr ''IN_QUEUE'')]), 10), (Inr (JDict [(''status'', JStr ''IN_QUEUE'')]), 5000)]"
      and st = "[(''status'', JStr ''COMPLETED'')]" and r = "Inr (JDict [(''status'', JStr ''COMPLETED'')])"
      and now = 100]
    C9_wait_timeout [where timeout = "Some 2" and job_id = "JStr ''job-1''" and start = 0 and polls = "[]"
      and st = "[(''status'', JStr ''COMPLETED'')]" and r = "Inr (JDict [(''status'', JStr ''COMPLETED'')])"
      and now = 100]
  by (simp add: classify_in_queue classify_completed is_timeout_def del: wait.simps)


subsection \<open>Task store: reading\<close>

lemma json_safe_id: "json_safe v = v"
proof (induction v)
  case (JList xs)
  then show ?case by (simp add: map_idI)
next
  case (JDict kvs)
  have "map (map_prod id json_safe) kvs = map id kvs"
  proof (rule map_cong [OF refl])
    fix kv assume kv: "kv \<in> set kvs"
    obtain k v where [simp]: "kv = (k, v)" by (cases kv)
    from kv have "v \<in> Basic_BNFs.snds kv" by simp
    with JDict kv have "json_safe v = v" by blast
    then show "map_prod id json_safe kv = id kv" by simp
  qed
  then show ?case by simp
qed simp_all

lemma sanitize_id: "sanitize job = job"
  using json_safe_id [of "JDict job"] by (simp add: sanitize_def del: json_safe.simps)

lemma get_cache_hit:
  "cache w (key st (JStr task_id)) = Some (raw, t) \<Longrightarrow>
   get st now task_id w = (Inr (case json_loads raw of Some v \<Rightarrow> v | None \<Rightarrow> JNull), w)"
  by (simp add: get_def split: option.splits)

text \<open>
  C10: \<^verbatim>\<open>get\<close> consults the disk backup only when the cache key is absent.  When the cache
  holds a value under the key, the result is decided by that value alone, whatever the
  files are, and the world stays as it is; when the value does not parse, \<^verbatim>\<open>get\<close> returns
  \<^verbatim>\<open>None\<close> and neither the cache entry nor any file is touched.
\<close>

theorem C10_get_corrupt_cache:
  "cache w (key st (JStr task_id)) = Some (raw, t) \<longrightarrow>
     get st now task_id (w\<lparr>files := f\<rparr>)
       = (Inr (case json_loads raw of Some v \<Rightarrow> v | None \<Rightarrow> JNull), w\<lparr>files := f\<rparr>)
     \<and> (json_loads raw = None \<longrightarrow> get st now task_id (w\<lparr>files := f\<rparr>) = (Inr JNull, w\<lparr>files := f\<rparr>))"
  using get_cache_hit [of "w\<lparr>files := f\<rparr>" st task_id raw t now] by auto

theorem C10_get_corrupt_cache_witness:
  "get \<lparr>prefix = ''ff:task'', ttl = 60, persist_ttl = 60, persist_path = Some ''/store''\<rparr> 100 ''t1''
     \<lparr>cache = [''ff:task:t1'' \<mapsto> (Garbage ''{task_id: t1'', 60)],
      files = [(''/store'', ''t1.json'') \<mapsto>
                 Text (Encoded (JDict [(''payload'', JDict [(''task_id'', JStr ''t1'')]), (''expires_at'', JNum 500)]))],
      writable = True\<rparr>
   = (Inr JNull,
      \<lparr>cache = [''ff:task:t1'' \<mapsto> (Garbage ''{task_id: t1'', 60)],
       files = [(''/store'', ''t1.json'') \<mapsto>
                 Text (Encoded (JDict [(''payload'', JDict [(''task_id'', JStr ''t1'')]), (''expires_at'', JNum 500)]))],
       writable = True\<rparr>)"
  using C10_get_corrupt_cache [where w = "\<lparr>cache = [''ff:task:t1'' \<mapsto> (Garbage ''{task_id: t1'', 60)], files = Map.empty, writable = True\<rparr>"
      and st = "\<lparr>prefix = ''ff:task'', ttl = 60, persist_ttl = 60, persist_path = Some ''/store''\<rparr>"
      and task_id = "''t1''" and raw = "Garbage ''{task_id: t1''" and t = 60 and now = 100
      and f = "[(''/store'', ''t1.json'') \<mapsto>
                 Text (Encoded (JDict [(''payload'', JDict [(''task_id'', JStr ''t1'')]), (''expires_at'', JNum 500)]))]"]
  by (simp add: key_def py_str_def json_loads_def)

subsection \<open>Task store: the disk mirror\<close>

lemma tmp_path_differs: "with_suffix (dir, s @ ''.json'') ''.tmp'' \<noteq> (dir, s @ ''.json'')"
proof
  assume "with_suffix (dir, s @ ''.json'') ''.tmp'' = (dir, s @ ''.json'')"
  then have "stem (s @ ''.json'') @ ''.tmp'' = s @ ''.json''"
    by (simp add: with_suffix_def)
  then have "last (stem (s @ ''.json'') @ ''.tmp'') = last (s @ ''.json'')"
    by simp
  then show False by simp
qed

lemma write_backup_str:
  assumes "persist_path st = Some dir" and "map_of job ''task_id'' = Some (JStr tid)"
    and "writable w"
  shows "write_backup st now job w =
     (Inr (), w\<lparr>files := ((files w)
        ((dir, safe_id tid @ ''.json'') \<mapsto>
            Text (json_dumps (JDict [(''payload'', JDict job), (''expires_at'', JNum (now + persist_ttl st))]))))
        (with_suffix (dir, safe_id tid @ ''.json'') ''.tmp'' := None)\<rparr>)"
  using assms tmp_path_differs [of dir "safe_id tid"]
  by (auto simp: write_backup_def backup_path_of_def backup_path_def Let_def fun_upd_twist)

lemma store_write_str:
  assumes "persist_path st = Some dir" and "map_of job ''task_id'' = Some (JStr tid)"
    and "writable w"
  shows "\<exists>w1. store_write st now job w = (Inr job, w1)
      \<and> cache w1 = (cache w)(key st (JStr tid) \<mapsto> (json_dumps (JDict job), ttl st))
      \<and> files w1 (dir, safe_id tid @ ''.json'') =
          Some (Text (json_dumps (JDict [(''payload'', JDict job), (''expires_at'', JNum (now + persist_ttl st))])))"
proof -
  let ?w1 = "w\<lparr>cache := (cache w)(key st (JStr tid) \<mapsto> (json_dumps (JDict job), ttl st))\<rparr>"
  from assms(3) have "writable ?w1" by simp
  from write_backup_str [OF assms(1,2) this, of now] tmp_path_differs [of dir "safe_id tid"] assms(2)
  show ?thesis
    by (simp add: store_write_def sanitize_id Let_def)
qed

lemma get_from_disk:
  assumes "backup_path st task_id = Some p"
    and "cache w (key st (JStr task_id)) = None"
    and "files w p = Some (Text raw)"
  shows "get st now task_id w =
     (case json_loads raw of
        None \<Rightarrow> (Inr JNull, purge_backup p w)
      | Some (JDict data) \<Rightarrow>
          (case expired (dget data ''expires_at'') now of
             Inl e \<Rightarrow> (Inl e, w)
           | Inr True \<Rightarrow> (Inr JNull, purge_backup p w)
           | Inr False \<Rightarrow>
               (case dget data ''payload'' of
                  JDict d \<Rightarrow> if d = [] then (Inr JNull, w)
                             else (Inr (JDict d), w\<lparr>cache := (cache w)(key st (JStr task_id) \<mapsto> (json_dumps (JDict d), ttl st))\<rparr>)
                | _ \<Rightarrow> (Inr JNull, purge_backup p w)))
      | Some data \<Rightarrow> (Inl (no_attribute data ''get''), w))"
  using assms
  by (auto simp: get_def read_backup_def Let_def is_dict_def split: option.splits json.splits sum.splits bool.splits)

text \<open>
  C5 as stated: a disk record whose \<^verbatim>\<open>expires_at\<close> has passed is deleted and \<^verbatim>\<open>get\<close> returns
  null.  The code first tests \<^verbatim>\<open>expires_at\<close> for truth: the record with \<^verbatim>\<open>expires_at\<close> 0, read
  at time 100, is returned, re-installed into the cache and kept on disk.
\<close>

theorem C5_expired_counterexample:
  "(0::int) < 100 \<and>
   get \<lparr>prefix = ''ff:task'', ttl = 60, persist_ttl = 60, persist_path = Some ''/store''\<rparr> 100 ''t1''
     \<lparr>cache = Map.empty,
      files = [(''/store'', ''t1.json'') \<mapsto>
                 Text (Encoded (JDict [(''payload'', JDict [(''task_id'', JStr ''t1'')]), (''expires_at'', JNum 0)]))],
      writable = True\<rparr>
   = (Inr (JDict [(''task_id'', JStr ''t1'')]),
      \<lparr>cache = [''ff:task:t1'' \<mapsto> (Encoded (JDict [(''task_id'', JStr ''t1'')]), 60)],
       files = [(''/store'', ''t1.json'') \<mapsto>
                 Text (Encoded (JDict [(''payload'', JDict [(''task_id'', JStr ''t1'')]), (''expires_at'', JNum 0)]))],
       writable = True\<rparr>)"
  by (simp add: get_def key_def py_str_def read_backup_def backup_path_def safe_id_def isalnum_def
      json_loads_def json_dumps_def dget_def expired_def is_dict_def Let_def)

text \<open>
  C5 (amended).  Let the store have a persistence directory.

  \<^item> Let a record with the task ID \<open>task_id\<close> be written at time \<open>t0\<close> while the directory
    takes writes, and let the cache entry be absent afterwards while the task's file is as
    the write left it.  Then \<^verbatim>\<open>get\<close> at a time \<open>t1\<close> not after \<open>t0 + persist_ttl\<close> returns the
    record from the disk mirror and re-installs it into the cache with the TTL of the store;
    at a later time, if \<open>t0 + persist_ttl\<close> is not 0 and the directory takes removals, the
    file is deleted and \<^verbatim>\<open>get\<close> returns null.
  \<^item> For any text file of the task read on a cache miss while the directory takes removals,
    the file is deleted and \<^verbatim>\<open>get\<close> returns null when the text does not parse as JSON; when
    it is a mapping whose \<^verbatim>\<open>expires_at\<close> is a number other than 0 and earlier than the
    current time; and when it is a mapping whose \<^verbatim>\<open>expires_at\<close> is absent, null or a number
    and whose payload is not a mapping.
  \<^item> A disk record whose \<^verbatim>\<open>expires_at\<close> is absent, null or 0 is never treated as expired: at
    every time, \<^verbatim>\<open>get\<close> on a cache miss returns its payload, when that is a non-empty
    mapping, and re-installs it into the cache.
\<close>

theorem C5_get_rehydrate:
  assumes dir: "persist_path st = Some dir"
    and tid: "map_of job ''task_id'' = Some (JStr task_id)"
    and written: "writable w"
    and flushed: "cache w2 (key st (JStr task_id)) = None"
    and mirror: "files w2 (dir, safe_id task_id @ ''.json'')
                   = files (snd (store_write st t0 job w)) (dir, safe_id task_id @ ''.json'')"
    and miss: "cache w3 (key st (JStr task_id)) = None"
    and onfile: "files w3 (dir, safe_id task_id @ ''.json'') = Some (Text raw)"
  shows "(t1 \<le> t0 + persist_ttl st \<longrightarrow>
            get st t1 task_id w2 =
              (Inr (JDict job),
               w2\<lparr>cache := (cache w2)(key st (JStr task_id) \<mapsto> (json_dumps (JDict job), ttl st))\<rparr>))
       \<and> (writable w2 \<and> t0 + persist_ttl st \<noteq> 0 \<and> t0 + persist_ttl st < t1 \<longrightarrow>
            get st t1 task_id w2 =
              (Inr JNull, w2\<lparr>files := (files w2)((dir, safe_id task_id @ ''.json'') := None)\<rparr>))
       \<and> (writable w3 \<and> json_loads raw = None \<longrightarrow>
            get st now task_id w3 =
              (Inr JNull, w3\<lparr>files := (files w3)((dir, safe_id task_id @ ''.json'') := None)\<rparr>))
       \<and> (\<forall>data n. writable w3 \<and> raw = json_dumps (JDict data)
              \<and> dget data ''expires_at'' = JNum n \<and> n \<noteq> 0 \<and> n < now \<longrightarrow>
            get st now task_id w3 =
              (Inr JNull, w3\<lparr>files := (files w3)((dir, safe_id task_id @ ''.json'') := None)\<rparr>))
       \<and> (\<forall>data. writable w3 \<and> raw = json_dumps (JDict data) \<and> \<not> is_dict (dget data ''payload'')
              \<and> (dget data ''expires_at'' = JNull \<or> (\<exists>n. dget data ''expires_at'' = JNum n)) \<longrightarrow>
            get st now task_id w3 =
              (Inr JNull, w3\<lparr>files := (files w3)((dir, safe_id task_id @ ''.json'') := None)\<rparr>))
       \<and> (\<forall>data d. raw = json_dumps (JDict data)
              \<and> (dget data ''expires_at'' = JNull \<or> dget data ''expires_at'' = JNum 0)
              \<and> dget data ''payload'' = JDict d \<and> d \<noteq> [] \<longrightarrow>
            get st now task_id w3 =
              (Inr (JDict d),
               w3\<lparr>cache := (cache w3)(key st (JStr task_id) \<mapsto> (json_dumps (JDict d), ttl st))\<rparr>))"
proof -
  let ?p = "(dir, safe_id task_id @ ''.json'')"
  have bp: "backup_path st task_id = Some ?p"
    using dir by (simp add: backup_path_def)
  from store_write_str [OF dir tid written, of t0] mirror
  have f2: "files w2 ?p =
      Some (Text (json_dumps (JDict [(''payload'', JDict job), (''expires_at'', JNum (t0 + persist_ttl st))])))"
    by auto
  from tid have ne: "job \<noteq> []" by auto
  have a: "t1 \<le> t0 + persist_ttl st \<Longrightarrow>
      get st t1 task_id w2 =
        (Inr (JDict job),
         w2\<lparr>cache := (cache w2)(key st (JStr task_id) \<mapsto> (json_dumps (JDict job), ttl st))\<rparr>)"
    using ne by (simp add: get_from_disk [OF bp flushed f2] json_loads_def json_dumps_def dget_def expired_def)
  have b: "writable w2 \<and> t0 + persist_ttl st \<noteq> 0 \<and> t0 + persist_ttl st < t1 \<Longrightarrow>
      get st t1 task_id w2 = (Inr JNull, w2\<lparr>files := (files w2)(?p := None)\<rparr>)"
    by (simp add: get_from_disk [OF bp flushed f2] json_loads_def json_dumps_def dget_def expired_def
        purge_backup_def)
  have c: "writable w3 \<and> json_loads raw = None \<Longrightarrow>
      get st now task_id w3 = (Inr JNull, w3\<lparr>files := (files w3)(?p := None)\<rparr>)"
    by (simp add: get_from_disk [OF bp miss onfile] purge_backup_def)
  have d: "writable w3 \<and> raw = json_dumps (JDict data) \<and> dget data ''expires_at'' = JNum n \<and> n \<noteq> 0 \<and> n < now \<Longrightarrow>
      get st now task_id w3 = (Inr JNull, w3\<lparr>files := (files w3)(?p := None)\<rparr>)" for data n
    by (simp add: get_from_disk [OF bp miss onfile] json_loads_def json_dumps_def expired_def purge_backup_def)
  have e: "writable w3 \<and> raw = json_dumps (JDict data) \<and> \<not> is_dict (dget data ''payload'')
        \<and> (dget data ''expires_at'' = JNull \<or> (\<exists>n. dget data ''expires_at'' = JNum n)) \<Longrightarrow>
      get st now task_id w3 = (Inr JNull, w3\<lparr>files := (files w3)(?p := None)\<rparr>)" for data
    by (auto simp: get_from_disk [OF bp miss onfile] json_loads_def json_dumps_def expired_def is_dict_def
        purge_backup_def split: json.splits bool.splits)
  have f: "raw = json_dumps (JDict data)
        \<and> (dget data ''expires_at'' = JNull \<or> dget data ''expires_at'' = JNum 0)
        \<and> dget data ''payload'' = JDict d \<and> d \<noteq> [] \<Longrightarrow>
      get st now task_id w3 =
        (Inr (JDict d), w3\<lparr>cache := (cache w3)(key st (JStr task_id) \<mapsto> (json_dumps (JDict d), ttl st))\<rparr>)"
    for data d
    by (auto simp: get_from_disk [OF bp miss onfile] json_loads_def json_dumps_def expired_def)
  show ?thesis using a b c d e f by blast
qed

theorem C5_get_rehydrate_witness:
  "get \<lparr>prefix = ''ff:task'', ttl = 60, persist_ttl = 90, persist_path = Some ''/store''\<rparr> 50 ''t1''
     ((snd (store_write \<lparr>prefix = ''ff:task'', ttl = 60, persist_ttl = 90, persist_path = Some ''/store''\<rparr> 10
              [(''task_id'', JStr ''t1''), (''status'', JStr ''completed'')]
              \<lparr>cache = Map.empty, files = Map.empty, writable = True\<rparr>))\<lparr>cache := Map.empty\<rparr>)
   = (Inr (JDict [(''task_id'', JStr ''t1''), (''status'', JStr ''completed'')]),
      (snd (store_write \<lparr>prefix = ''ff:task'', ttl = 60, persist_ttl = 90, persist_path = Some ''/store''\<rparr> 10
              [(''task_id'', JStr ''t1''), (''status'', JStr ''completed'')]
              \<lparr>cache = Map.empty, files = Map.empty, writable = True\<rparr>))
        \<lparr>cache := [''ff:task:t1'' \<mapsto>
            (Encoded (JDict [(''task_id'', JStr ''t1''), (''status'', JStr ''completed'')]), 60)]\<rparr>)
   \<and> fst (get \<lparr>prefix = ''ff:task'', ttl = 60, persist_ttl = 90, persist_path = Some ''/store''\<rparr> 500 ''t1''
     ((snd (store_write \<lparr>prefix = ''ff:task'', ttl = 60, persist_ttl = 90, persist_path = Some ''/store''\<rparr> 10
              [(''task_id'', JStr ''t1''), (''status'', JStr ''completed'')]
              \<lparr>cache = Map.empty, files = Map.empty, writable = True\<rparr>))\<lparr>cache := Map.empty\<rparr>)) = Inr JNull
   \<and> get \<lparr>prefix = ''ff:task'', ttl = 60, persist_ttl = 90, persist_path = Some ''/store''\<rparr> 50 ''t1''
       \<lparr>cache = Map.empty, files = [(''/store'', ''t1.json'') \<mapsto> Text (Garbage ''{payload'')], writable = True\<rparr>
     = (Inr JNull, \<lparr>cache = Map.empty, files = Map.empty, writable = True\<rparr>)
   \<and> get \<lparr>prefix = ''ff:task'', ttl = 60, persist_ttl = 90, persist_path = Some ''/store''\<rparr> 50 ''t1''
       \<lparr>cache = Map.empty,
        files = [(''/store'', ''t1.json'') \<mapsto>
           Text (Encoded (JDict [(''payload'', JDict [(''task_id'', JStr ''t1'')]), (''expires_at'', JNum 40)]))],
        writable = True\<rparr>
     = (Inr JNull, \<lparr>cache = Map.empty, files = Map.empty, writable = True\<rparr>)
   \<and> get \<lparr>prefix = ''ff:task'', ttl = 60, persist_ttl = 90, persist_path = Some ''/store''\<rparr> 50 ''t1''
       \<lparr>cache = Map.empty,
        files = [(''/store'', ''t1.json'') \<mapsto> Text (Encoded (JDict [(''payload'', JStr ''x'')]))],
        writable = True\<rparr>
     = (Inr JNull, \<lparr>cache = Map.empty, files = Map.empty, writable = True\<rparr>)
   \<and> get \<lparr>prefix = ''ff:task'', ttl = 60, persist_ttl = 90, persist_path = Some ''/store''\<rparr> 1000000 ''t1''
       \<lparr>cache = Map.empty,
        files = [(''/store'', ''t1.json'') \<mapsto>
           Text (Encoded (JDict [(''payload'', JDict [(''task_id'', JStr ''t1'')]), (''expires_at'', JNum 0)]))],
        writable = True\<rparr>
     = (Inr (JDict [(''task_id'', JStr ''t1'')]),
        \<lparr>cache = [''ff:task:t1'' \<mapsto> (Encoded (JDict [(''task_id'', JStr ''t1'')]), 60)],
         files = [(''/store'', ''t1.json'') \<mapsto>
           Text (Encoded (JDict [(''payload'', JDict [(''task_id'', JStr ''t1'')]), (''expires_at'', JNum 0)]))],
         writable = True\<rparr>)"
proof -
  let ?st = "\<lparr>prefix = ''ff:task'', ttl = 60, persist_ttl = 90, persist_path = Some ''/store''\<rparr>"
  let ?job = "[(''task_id'', JStr ''t1''), (''status'', JStr ''completed'')]"
  let ?w0 = "\<lparr>cache = Map.empty, files = Map.empty, writable = True\<rparr>"
  let ?w1 = "snd (store_write ?st 10 ?job ?w0)"
  let ?w2 = "?w1\<lparr>cache := Map.empty\<rparr>"
  let ?g = "Garbage ''{payload''"
  let ?old = "Encoded (JDict [(''payload'', JDict [(''task_id'', JStr ''t1'')]), (''expires_at'', JNum 40)])"
  let ?bad = "Encoded (JDict [(''payload'', JStr ''x'')])"
  let ?zero = "Encoded (JDict [(''payload'', JDict [(''task_id'', JStr ''t1'')]), (''expires_at'', JNum 0)])"
  have sid: "safe_id ''t1'' = ''t1''"
    by (simp add: safe_id_def isalnum_def)
  have h1: "persist_path ?st = Some ''/store''" by simp
  have h2: "map_of ?job ''task_id'' = Some (JStr ''t1'')" by simp
  have h3: "writable ?w0" by simp
  have h4: "cache ?w2 (key ?st (JStr ''t1'')) = None" by simp
  have h5: "files ?w2 (''/store'', safe_id ''t1'' @ ''.json'')
              = files ?w1 (''/store'', safe_id ''t1'' @ ''.json'')" by simp
  have h6: "cache \<lparr>cache = Map.empty, files = [(''/store'', ''t1.json'') \<mapsto> Text c], writable = True\<rparr>
              (key ?st (JStr ''t1'')) = None" for c by simp
  have h7: "files \<lparr>cache = Map.empty, files = [(''/store'', ''t1.json'') \<mapsto> Text c], writable = True\<rparr>
              (''/store'', safe_id ''t1'' @ ''.json'') = Some (Text c)" for c
    by (simp add: sid)
  have w2w: "writable ?w2"
    using store_write_str [OF h1 h2 h3, of 10]
    by (auto simp: store_write_def write_backup_def backup_path_of_def backup_path_def Let_def sanitize_id)
  note g = C5_get_rehydrate [OF h1 h2 h3 h4 h5 h6 [of ?g] h7 [of ?g], where ?t1.0 = 50 and now = 50]
  note late = C5_get_rehydrate [OF h1 h2 h3 h4 h5 h6 [of ?g] h7 [of ?g], where ?t1.0 = 500 and now = 50]
  note old = C5_get_rehydrate [OF h1 h2 h3 h4 h5 h6 [of ?old] h7 [of ?old], where ?t1.0 = 50 and now = 50]
  note bad = C5_get_rehydrate [OF h1 h2 h3 h4 h5 h6 [of ?bad] h7 [of ?bad], where ?t1.0 = 50 and now = 50]
  note zero = C5_get_rehydrate [OF h1 h2 h3 h4 h5 h6 [of ?zero] h7 [of ?zero], where ?t1.0 = 50 and now = 1000000]
  have a: "get ?st 50 ''t1'' ?w2 =
      (Inr (JDict ?job), ?w1\<lparr>cache := [''ff:task:t1'' \<mapsto> (Encoded (JDict ?job), 60)]\<rparr>)"
    using g [THEN conjunct1] by (simp add: key_def py_str_def json_dumps_def)
  have b: "fst (get ?st 500 ''t1'' ?w2) = Inr JNull"
    using late [THEN conjunct2, THEN conjunct1] w2w by simp
  have c: "get ?st 50 ''t1'' \<lparr>cache = Map.empty, files = [(''/store'', ''t1.json'') \<mapsto> Text ?g], writable = True\<rparr>
      = (Inr JNull, ?w0)"
    using g [THEN conjunct2, THEN conjunct2, THEN conjunct1]
    by (simp add: sid json_loads_def)
  have d: "get ?st 50 ''t1'' \<lparr>cache = Map.empty, files = [(''/store'', ''t1.json'') \<mapsto> Text ?old], writable = True\<rparr>
      = (Inr JNull, ?w0)"
    using old [THEN conjunct2, THEN conjunct2, THEN conjunct2, THEN conjunct1, rule_format,
        of "[(''payload'', JDict [(''task_id'', JStr ''t1'')]), (''expires_at'', JNum 40)]" 40]
    by (simp add: sid json_dumps_def dget_def)
  have e: "get ?st 50 ''t1'' \<lparr>cache = Map.empty, files = [(''/store'', ''t1.json'') \<mapsto> Text ?bad], writable = True\<rparr>
      = (Inr JNull, ?w0)"
    using bad [THEN conjunct2, THEN conjunct2, THEN conjunct2, THEN conjunct2, THEN conjunct1, rule_format,
        of "[(''payload'', JStr ''x'')]"]
    by (simp add: sid json_dumps_def dget_def is_dict_def)
  have f: "get ?st 1000000 ''t1'' \<lparr>cache = Map.empty, files = [(''/store'', ''t1.json'') \<mapsto> Text ?zero], writable = True\<rparr>
      = (Inr (JDict [(''task_id'', JStr ''t1'')]),
         \<lparr>cache = [''ff:task:t1'' \<mapsto> (Encoded (JDict [(''task_id'', JStr ''t1'')]), 60)],
          files = [(''/store'', ''t1.json'') \<mapsto> Text ?zero], writable = True\<rparr>)"
    using zero [THEN conjunct2, THEN conjunct2, THEN conjunct2, THEN conjunct2, THEN conjunct2, rule_format,
        of "[(''payload'', JDict [(''task_id'', JStr ''t1'')]), (''expires_at'', JNum 0)]" "[(''task_id'', JStr ''t1'')]"]
    by (simp add: sid json_dumps_def dget_def key_def py_str_def)
  from a b c d e f show ?thesis by (intro conjI)
qed

subsection \<open>Task store: \<^verbatim>\<open>update_fields\<close>\<close>

lemma map_of_dset: "map_of (dset d k v) = (map_of d)(k \<mapsto> v)"
  by (simp add: dset_def update_conv')

lemma dupdate_Cons: "dupdate d (kv # u) = dupdate (dset d (fst kv) (snd kv)) u"
  by (simp add: dupdate_def)

lemma map_of_dupdate:
  "distinct (map fst u) \<Longrightarrow> map_of (dupdate d u) = map_of d ++ map_of u"
proof (induction u arbitrary: d)
  case Nil
  show ?case by (simp add: dupdate_def)
next
  case (Cons kv u)
  obtain k v where kv: "kv = (k, v)" by (cases kv)
  from Cons.prems have nk: "map_of u k = None" and du: "distinct (map fst u)"
    by (auto simp: kv map_of_eq_None_iff)
  have "map_of (dupdate d (kv # u)) = (map_of d)(k \<mapsto> v) ++ map_of u"
    by (simp only: dupdate_Cons kv fst_conv snd_conv Cons.IH [OF du] map_of_dset)
  also have "\<dots> = map_of d ++ map_of (kv # u)"
    using nk by (auto simp: kv map_add_def fun_eq_iff split: option.splits)
  finally show ?case .
qed

lemma merge_field_ok:
  assumes "mergeable job (k, v)"
  shows "\<exists>job'. merge_field job (k, v) = Inr job'
           \<and> map_of job' = (map_of job)(k \<mapsto> spec_merged_value k v (map_of job k))"
  using assms
  by (auto simp: merge_field_def mergeable_def spec_merged_value_def map_of_dset is_dict_def is_list_def
      split: option.splits json.splits)

lemma merge_ok:
  assumes "distinct (map fst updates)" and "\<forall>kv \<in> set updates. mergeable job kv"
  shows "\<exists>job'. merge job updates = Inr job'
           \<and> (\<forall>k. map_of job' k =
                 (case map_of updates k of
                    None \<Rightarrow> map_of job k
                  | Some v \<Rightarrow> Some (spec_merged_value k v (map_of job k))))"
  using assms
proof (induction updates arbitrary: job)
  case Nil
  show ?case by simp
next
  case (Cons kv updates)
  obtain k v where kv: "kv = (k, v)" by (cases kv)
  from Cons.prems have nk: "map_of updates k = None" and du: "distinct (map fst updates)"
    and knot: "\<forall>kv' \<in> set updates. fst kv' \<noteq> k"
    by (auto simp: kv map_of_eq_None_iff)
  from Cons.prems have "mergeable job (k, v)" by (simp add: kv)
  from merge_field_ok [OF this] obtain job1 where
    j1: "merge_field job (k, v) = Inr job1"
    and m1: "map_of job1 = (map_of job)(k \<mapsto> spec_merged_value k v (map_of job k))"
    by blast
  have "\<forall>kv' \<in> set updates. mergeable job1 kv'"
  proof
    fix kv' assume in': "kv' \<in> set updates"
    with knot have ne: "fst kv' \<noteq> k" by blast
    from Cons.prems in' have "mergeable job kv'" by simp
    with ne show "mergeable job1 kv'"
      by (auto simp: mergeable_def m1)
  qed
  from Cons.IH [OF du this] obtain job' where
    j': "merge job1 updates = Inr job'"
    and m': "\<forall>k'. map_of job' k' =
                 (case map_of updates k' of
                    None \<Rightarrow> map_of job1 k'
                  | Some v' \<Rightarrow> Some (spec_merged_value k' v' (map_of job1 k')))"
    by blast
  have "map_of job' k' =
         (case map_of (kv # updates) k' of
            None \<Rightarrow> map_of job k'
          | Some v' \<Rightarrow> Some (spec_merged_value k' v' (map_of job k')))" for k'
    using m' [rule_format, of k'] nk
    by (cases "k' = k") (auto simp: kv m1 split: option.splits)
  with j1 j' show ?case by (simp add: kv)
qed

lemma store_write_ok:
  assumes "map_of job ''task_id'' = Some (JStr tid)"
  shows "\<exists>w1. store_write st now job w = (Inr job, w1)
      \<and> cache w1 = (cache w)(key st (JStr tid) \<mapsto> (json_dumps (JDict job), ttl st))"
  using assms
  by (cases "persist_path st")
     (auto simp: store_write_def sanitize_id write_backup_def backup_path_of_def backup_path_def Let_def)

text \<open>
  C6: \<^verbatim>\<open>update_fields\<close> on an existing task (\<^verbatim>\<open>get\<close> delivers the record \<open>job\<close>) and an updates
  mapping whose items fit the existing fields: the call returns the record \<open>r\<close> it has
  written to the cache, in which \<^verbatim>\<open>updated_at\<close> is the current time; a \<^verbatim>\<open>details\<close> item
  with a mapping has been merged into the existing details, key by key, the provided
  entries winning; a \<^verbatim>\<open>progress\<close> item with a list has been appended to the existing list;
  every other item has replaced its field; every field without an item is as it was.  When
  \<^verbatim>\<open>get\<close> delivers nothing, the call returns null and the world is as \<^verbatim>\<open>get\<close> left it.
\<close>

theorem C6_update_fields:
  "(get st (epoch now) task_id w = (Inr (JDict job), w1) \<and> job \<noteq> [] \<and> distinct (map fst updates)
      \<and> (\<forall>kv \<in> set updates. mergeable job kv)
      \<and> (case map_of updates ''task_id'' of Some v \<Rightarrow> is_str v
           | None \<Rightarrow> \<exists>s. map_of job ''task_id'' = Some (JStr s))
    \<longrightarrow> (\<exists>r w2. update_fields st now task_id updates w = (Inr (JDict r), w2)
          \<and> map_of r ''updated_at'' = Some (JStr (iso now))
          \<and> (\<forall>k v. k \<noteq> ''updated_at'' \<and> map_of updates k = Some v \<longrightarrow>
               (\<forall>u. k = ''details'' \<and> v = JDict u \<and> distinct (map fst u) \<longrightarrow>
                    (\<exists>d'. map_of r k = Some (JDict d')
                        \<and> map_of d' = map_of (case map_of job k of Some (JDict d) \<Rightarrow> d | _ \<Rightarrow> []) ++ map_of u))
             \<and> (\<forall>ys. k = ''progress'' \<and> v = JList ys \<longrightarrow>
                    map_of r k = Some (JList ((case map_of job k of Some (JList xs) \<Rightarrow> xs | _ \<Rightarrow> []) @ ys)))
             \<and> (\<not> (k = ''details'' \<and> is_dict v) \<and> \<not> (k = ''progress'' \<and> is_list v) \<longrightarrow>
                    map_of r k = Some v))
          \<and> (\<forall>k. k \<noteq> ''updated_at'' \<and> map_of updates k = None \<longrightarrow> map_of r k = map_of job k)
          \<and> (\<exists>tid. map_of r ''task_id'' = Some (JStr tid)
                \<and> cache w2 (key st (JStr tid)) = Some (json_dumps (JDict r), ttl st))))
   \<and> (get st (epoch now) task_id w = (Inr j, w1) \<and> \<not> truthy j \<longrightarrow>
        update_fields st now task_id updates w = (Inr JNull, w1))"
proof (intro conjI impI)
  assume "get st (epoch now) task_id w = (Inr j, w1) \<and> \<not> truthy j"
  then show "update_fields st now task_id updates w = (Inr JNull, w1)"
    by (simp add: update_fields_def)
next
  assume a: "get st (epoch now) task_id w = (Inr (JDict job), w1) \<and> job \<noteq> [] \<and> distinct (map fst updates)
      \<and> (\<forall>kv \<in> set updates. mergeable job kv)
      \<and> (case map_of updates ''task_id'' of Some v \<Rightarrow> is_str v
           | None \<Rightarrow> \<exists>s. map_of job ''task_id'' = Some (JStr s))"
  then have g: "get st (epoch now) task_id w = (Inr (JDict job), w1)" and ne: "job \<noteq> []"
    and du: "distinct (map fst updates)" and mg: "\<forall>kv \<in> set updates. mergeable job kv"
    and ti: "case map_of updates ''task_id'' of Some v \<Rightarrow> is_str v
           | None \<Rightarrow> \<exists>s. map_of job ''task_id'' = Some (JStr s)"
    by blast+
  from merge_ok [OF du mg] obtain job' where
    m: "merge job updates = Inr job'"
    and l: "\<And>k. map_of job' k =
                 (case map_of updates k of
                    None \<Rightarrow> map_of job k
                  | Some v \<Rightarrow> Some (spec_merged_value k v (map_of job k)))"
    by blast
  define r where "r = dset job' ''updated_at'' (JStr (iso now))"
  have lr: "map_of r k = (if k = ''updated_at'' then Some (JStr (iso now)) else map_of job' k)" for k
    by (simp add: r_def map_of_dset)
  from ti obtain tid where tid: "map_of job' ''task_id'' = Some (JStr tid)"
    by (auto simp: l spec_merged_value_def is_str_def split: option.splits json.splits)
  then have rt: "map_of r ''task_id'' = Some (JStr tid)"
    by (simp add: lr)
  from store_write_ok [OF rt, of st "epoch now" w1] obtain w2 where
    sw: "store_write st (epoch now) r w1 = (Inr r, w2)"
    and c2: "cache w2 = (cache w1)(key st (JStr tid) \<mapsto> (json_dumps (JDict r), ttl st))"
    by blast
  have uf: "update_fields st now task_id updates w = (Inr (JDict r), w2)"
    using g ne m sw by (simp add: update_fields_def r_def)
  have p1: "map_of r ''updated_at'' = Some (JStr (iso now))"
    by (simp add: lr)
  have p2: "\<exists>d'. map_of r k = Some (JDict d')
        \<and> map_of d' = map_of (case map_of job k of Some (JDict d) \<Rightarrow> d | _ \<Rightarrow> []) ++ map_of u"
    if "map_of updates k = Some v" "k = ''details''" "v = JDict u" "distinct (map fst u)" for k v u
    using that by (simp add: lr l spec_merged_value_def is_dict_def map_of_dupdate)
  have p3: "map_of r k = Some (JList ((case map_of job k of Some (JList xs) \<Rightarrow> xs | _ \<Rightarrow> []) @ ys))"
    if "map_of updates k = Some v" "k = ''progress''" "v = JList ys" for k v ys
    using that by (simp add: lr l spec_merged_value_def is_list_def is_dict_def)
  have p4: "map_of r k = Some v"
    if "k \<noteq> ''updated_at''" "map_of updates k = Some v"
       "\<not> (k = ''details'' \<and> is_dict v)" "\<not> (k = ''progress'' \<and> is_list v)" for k v
    using that by (auto simp: lr l spec_merged_value_def)
  have p5: "map_of r k = map_of job k" if "k \<noteq> ''updated_at''" "map_of updates k = None" for k
    using that by (simp add: lr l)
  have p6: "\<exists>tid. map_of r ''task_id'' = Some (JStr tid)
                \<and> cache w2 (key st (JStr tid)) = Some (json_dumps (JDict r), ttl st)"
    using rt c2 by auto
  show "\<exists>r w2. update_fields st now task_id updates w = (Inr (JDict r), w2)
          \<and> map_of r ''updated_at'' = Some (JStr (iso now))
          \<and> (\<forall>k v. k \<noteq> ''updated_at'' \<and> map_of updates k = Some v \<longrightarrow>
               (\<forall>u. k = ''details'' \<and> v = JDict u \<and> distinct (map fst u) \<longrightarrow>
                    (\<exists>d'. map_of r k = Some (JDict d')
                        \<and> map_of d' = map_of (case map_of job k of Some (JDict d) \<Rightarrow> d | _ \<Rightarrow> []) ++ map_of u))
             \<and> (\<forall>ys. k = ''progress'' \<and> v = JList ys \<longrightarrow>
                    map_of r k = Some (JList ((case map_of job k of Some (JList xs) \<Rightarrow> xs | _ \<Rightarrow> []) @ ys)))
             \<and> (\<not> (k = ''details'' \<and> is_dict v) \<and> \<not> (k = ''progress'' \<and> is_list v) \<longrightarrow>
                    map_of r k = Some v))
          \<and> (\<forall>k. k \<noteq> ''updated_at'' \<and> map_of updates k = None \<longrightarrow> map_of r k = map_of job k)
          \<and> (\<exists>tid. map_of r ''task_id'' = Some (JStr tid)
                \<and> cache w2 (key st (JStr tid)) = Some (json_dumps (JDict r), ttl st))"
    apply (rule exI [of _ r], rule exI [of _ w2])
    apply (intro conjI allI impI)
    subgoal by (rule uf)
    subgoal by (rule p1)
    subgoal for k v u using p2 [of k v u] by blast
    subgoal for k v ys using p3 [of k v ys] by blast
    subgoal for k v using p4 [of k v] by blast
    subgoal for k using p5 [of k] by blast
    subgoal by (rule p6)
    done
qed

theorem C6_update_fields_witness:
  "\<exists>r w2.
     update_fields \<lparr>prefix = ''ff:task'', ttl = 60, persist_ttl = 90, persist_path = None\<rparr>
       \<lparr>epoch = 100, iso = ''2025-01-01T00:00:00Z''\<rparr> ''t1''
       [(''details'', JDict [(''job'', JStr ''j-9'')]), (''progress'', JList [JStr ''second'']),
        (''status'', JStr ''running'')]
       \<lparr>cache = [''ff:task:t1'' \<mapsto>
           (Encoded (JDict [(''task_id'', JStr ''t1''), (''status'', JStr ''pending''),
                            (''details'', JDict [(''kind'', JStr ''x'')]),
                            (''progress'', JList [JStr ''first''])]), 60)],
        files = Map.empty, writable = True\<rparr>
       = (Inr (JDict r), w2)
     \<and> map_of r ''updated_at'' = Some (JStr ''2025-01-01T00:00:00Z'')
     \<and> map_of r ''status'' = Some (JStr ''running'')
     \<and> map_of r ''progress'' = Some (JList [JStr ''first'', JStr ''second''])
     \<and> (\<exists>d'. map_of r ''details'' = Some (JDict d')
            \<and> map_of d' = map_of [(''kind'', JStr ''x'')] ++ map_of [(''job'', JStr ''j-9'')])
     \<and> map_of r ''task_id'' = Some (JStr ''t1'')"
proof -
  let ?st = "\<lparr>prefix = ''ff:task'', ttl = 60, persist_ttl = 90, persist_path = None\<rparr>"
  let ?now = "\<lparr>epoch = 100, iso = ''2025-01-01T00:00:00Z''\<rparr>"
  let ?job = "[(''task_id'', JStr ''t1''), (''status'', JStr ''pending''),
               (''details'', JDict [(''kind'', JStr ''x'')]), (''progress'', JList [JStr ''first''])]"
  let ?w = "\<lparr>cache = [''ff:task:t1'' \<mapsto> (Encoded (JDict ?job), 60)], files = Map.empty, writable = True\<rparr>"
  let ?updates = "[(''details'', JDict [(''job'', JStr ''j-9'')]), (''progress'', JList [JStr ''second'']),
                   (''status'', JStr ''running'')]"
  have hyp: "get ?st (epoch ?now) ''t1'' ?w = (Inr (JDict ?job), ?w) \<and> ?job \<noteq> []
      \<and> distinct (map fst ?updates) \<and> (\<forall>kv \<in> set ?updates. mergeable ?job kv)
      \<and> (case map_of ?updates ''task_id'' of Some v \<Rightarrow> is_str v
           | None \<Rightarrow> \<exists>s. map_of ?job ''task_id'' = Some (JStr s))"
    by (simp add: get_def key_def py_str_def json_loads_def mergeable_def is_dict_def is_list_def)
  from C6_update_fields [where st = ?st and now = ?now and task_id = "''t1''" and w = ?w and job = ?job
      and ?w1.0 = ?w and updates = ?updates, THEN conjunct1, THEN mp, OF hyp]
  obtain r w2 where big:
    "update_fields ?st ?now ''t1'' ?updates ?w = (Inr (JDict r), w2)
     \<and> map_of r ''updated_at'' = Some (JStr (iso ?now))
     \<and> (\<forall>k v. k \<noteq> ''updated_at'' \<and> map_of ?updates k = Some v \<longrightarrow>
               (\<forall>u. k = ''details'' \<and> v = JDict u \<and> distinct (map fst u) \<longrightarrow>
                    (\<exists>d'. map_of r k = Some (JDict d')
                        \<and> map_of d' = map_of (case map_of ?job k of Some (JDict d) \<Rightarrow> d | _ \<Rightarrow> []) ++ map_of u))
             \<and> (\<forall>ys. k = ''progress'' \<and> v = JList ys \<longrightarrow>
                    map_of r k = Some (JList ((case map_of ?job k of Some (JList xs) \<Rightarrow> xs | _ \<Rightarrow> []) @ ys)))
             \<and> (\<not> (k = ''details'' \<and> is_dict v) \<and> \<not> (k = ''progress'' \<and> is_list v) \<longrightarrow>
                    map_of r k = Some v))
     \<and> (\<forall>k. k \<noteq> ''updated_at'' \<and> map_of ?updates k = None \<longrightarrow> map_of r k = map_of ?job k)
     \<and> (\<exists>tid. map_of r ''task_id'' = Some (JStr tid)
                \<and> cache w2 (key ?st (JStr tid)) = Some (json_dumps (JDict r), ttl ?st))"
    by (elim exE) (rule that)
  note uf = big [THEN conjunct1]
  note ua = big [THEN conjunct2, THEN conjunct1]
  note up = big [THEN conjunct2, THEN conjunct2, THEN conjunct1]
  note keep = big [THEN conjunct2, THEN conjunct2, THEN conjunct2, THEN conjunct1]
  from up [rule_format, of "''status''" "JStr ''running''"]
  have s: "map_of r ''status'' = Some (JStr ''running'')" by simp
  from up [rule_format, of "''progress''" "JList [JStr ''second'']"]
  have p: "map_of r ''progress'' = Some (JList [JStr ''first'', JStr ''second''])" by simp
  from up [rule_format, of "''details''" "JDict [(''job'', JStr ''j-9'')]"]
  have d: "\<exists>d'. map_of r ''details'' = Some (JDict d')
            \<and> map_of d' = map_of [(''kind'', JStr ''x'')] ++ map_of [(''job'', JStr ''j-9'')]"
    by (simp add: is_dict_def)
  from keep [rule_format, of "''task_id''"]
  have t: "map_of r ''task_id'' = Some (JStr ''t1'')" by simp
  from ua have ua': "map_of r ''updated_at'' = Some (JStr ''2025-01-01T00:00:00Z'')" by simp
  show ?thesis
    apply (rule exI [of _ r], rule exI [of _ w2])
    apply (intro conjI)
    subgoal by (rule uf)
    subgoal by (rule ua')
    subgoal by (rule s)
    subgoal by (rule p)
    subgoal by (rule d)
    subgoal by (rule t)
    done
qed



subsection \<open>Pipeline engine: the jobs submitted\<close>

lemma fst_emit: "fst (emit pre f) = pre @ fst f"
  by (simp add: emit_def)

lemma snd_emit: "snd (emit pre f) = snd f"
  by (simp add: emit_def)

lemma fst_andthen:
  "fst (andthen f g) = (case snd f of Inl e \<Rightarrow> fst f | Inr x \<Rightarrow> fst f @ fst (g x))"
  by (simp add: andthen_def emit_def split: sum.splits)

lemma snd_andthen:
  "snd (andthen f g) = (case snd f of Inl e \<Rightarrow> Inl e | Inr x \<Rightarrow> snd (g x))"
  by (simp add: andthen_def emit_def split: sum.splits)

lemma flow_simps:
  "fst (stop e) = []" "snd (stop e) = Inl e" "fst (go x) = []" "snd (go x) = Inr x"
  "fst (attempt r) = []" "snd (attempt r) = (case r of Inl e \<Rightarrow> Inl (Raises e) | Inr v \<Rightarrow> Inr v)"
  "fst (awaited q) = []"
  "snd (awaited q) = (case q of None \<Rightarrow> Inl Suspends | Some (Inl e) \<Rightarrow> Inl (Raises e) | Some (Inr v) \<Rightarrow> Inr v)"
  by (simp_all add: stop_def go_def attempt_def awaited_def split: sum.splits option.splits)

lemma submits_append: "submits (xs @ ys) = submits xs @ submits ys"
  by (induction xs rule: submits.induct) simp_all

lemma fst_completed: "submits (fst (completed result message)) = []"
  by (simp add: completed_def fst_emit flow_simps)

lemma snd_completed: "snd (completed result message) = Inl Returns"
  by (simp add: completed_def snd_emit flow_simps)

lemma submits_facefusion_stage:
  "submits (fst (facefusion_stage mgr request_dict wav_result intermediate)) =
     (case face_endpoint mgr of
        None \<Rightarrow> []
      | Some ep \<Rightarrow> [(FaceFusion, JDict [(''request'', JDict request_dict),
                                          (''wav2lip'', dget wav_result ''wav2lip'')])])"
  by (simp add: facefusion_stage_def fst_emit fst_andthen snd_andthen flow_simps submits_append
      fst_completed
      split: option.splits sum.splits json.splits)


lemma not_go_completed: "snd (completed result message) \<noteq> Inr u"
  by (simp add: snd_completed)


lemma submits_lipsync:
  "submits (fst (lipsync mgr request im0)) =
     (case wav_endpoint mgr of
        None \<Rightarrow> []
      | Some ep \<Rightarrow>
          (Wav2Lip, JDict (request_to_dict request)) #
          (case submit (run_reply ep) of
             Inl _ \<Rightarrow> []
           | Inr job \<Rightarrow>
               (case endpoint_wait mgr ep job of
                  Some (Inr (JDict ws)) \<Rightarrow>
                    (case wav_result_of (dget ws ''output'') of
                       Some wr \<Rightarrow>
                         if source_keys request \<noteq> [] then
                           submits (fst (facefusion_stage mgr (request_to_dict request) wr
                                           (dset im0 ''wav2lip'' (JDict wr))))
                         else []
                     | None \<Rightarrow> [])
                | _ \<Rightarrow> [])))"
  by (simp add: lipsync_def Let_def fst_emit fst_andthen snd_andthen flow_simps submits_append
      fst_completed
      split: option.splits sum.splits json.splits)



lemma submits_sovits_stage:
  "submits (fst (sovits_stage mgr request script voice_key)) =
     (case sovits_endpoint mgr of
        None \<Rightarrow> []
      | Some ep \<Rightarrow> if \<not> truthy voice_key then []
                   else [(SoVITS, JDict (sovits_payload request script voice_key))])"
  by (simp add: sovits_stage_def Let_def fst_emit fst_andthen snd_andthen flow_simps submits_append
      split: option.splits sum.splits json.splits)

lemma go_sovits_stage:
  assumes "snd (sovits_stage mgr request script voice_key) = Inr r"
  shows "sovits_endpoint mgr \<noteq> None \<and> truthy voice_key
       \<and> source_keys (fst r) = source_keys request \<and> target_key (fst r) = target_key request"
  using assms
  by (auto simp: sovits_stage_def Let_def snd_emit snd_andthen flow_simps
      split: option.splits sum.splits json.splits if_splits)


lemma submits_audio_only: "submits (fst (audio_only request sovits_result)) = []"
  by (simp add: audio_only_def Let_def fst_completed)




lemma do_step_calls: "do_step st clock tid s r = (x, r') \<Longrightarrow> calls r' = calls r @ [s]"
  by (cases s) (auto simp: do_step_def split: prod.splits)

lemma run_steps_calls:
  "run_steps st clock tid steps r = (x, r') \<Longrightarrow>
   \<exists>k \<le> length steps. calls r' = calls r @ take k steps \<and> (x = None \<longrightarrow> k = length steps)"
proof (induction steps arbitrary: r)
  case Nil
  then show ?case by simp
next
  case (Cons s steps)
  obtain y r1 where d: "do_step st clock tid s r = (y, r1)" by (cases "do_step st clock tid s r")
  from do_step_calls [OF d] have c1: "calls r1 = calls r @ [s]" .
  show ?case
  proof (cases y)
    case (Some e)
    with Cons.prems d have "x = Some e" "r' = r1" by simp_all
    with c1 show ?thesis by (intro exI [of _ 1]) simp
  next
    case None
    with Cons.prems d have "run_steps st clock tid steps r1 = (x, r')" by simp
    from Cons.IH [OF this] obtain k where
      k: "k \<le> length steps" "calls r' = calls r1 @ take k steps" "x = None \<longrightarrow> k = length steps"
      by blast
    with c1 show ?thesis by (intro exI [of _ "Suc k"]) simp
  qed
qed

lemma submits_take: "\<exists>j. submits (take k steps) = take j (submits steps)"
proof (induction steps arbitrary: k)
  case Nil
  show ?case by simp
next
  case (Cons s steps)
  show ?case
  proof (cases k)
    case 0
    show ?thesis unfolding 0 by (intro exI [of _ 0]) simp
  next
    case (Suc k')
    from Cons obtain j where j: "submits (take k' steps) = take j (submits steps)" by blast
    show ?thesis
    proof (cases s)
      case (Submit stg payload)
      with j show ?thesis unfolding Suc by (intro exI [of _ "Suc j"]) simp
    qed (use j in \<open>auto simp: Suc\<close>)
  qed
qed

lemma submits_failure_steps: "submits (failure_steps e) = []"
  by (simp add: failure_steps_def Let_def)

lemma handle_failure_calls:
  "handle_failure st clock tid e r = (x, r') \<Longrightarrow>
   \<exists>tail. calls r' = calls r @ tail \<and> submits tail = [] \<and> x \<noteq> Done \<and> x \<noteq> Suspended"
proof -
  assume a: "handle_failure st clock tid e r = (x, r')"
  obtain y r1 where rs: "run_steps st clock tid (failure_steps e) r = (y, r1)"
    by (cases "run_steps st clock tid (failure_steps e) r")
  from run_steps_calls [OF rs] obtain k where k: "calls r1 = calls r @ take k (failure_steps e)"
    by blast
  from submits_take [of k "failure_steps e"] have "submits (take k (failure_steps e)) = []"
    by (auto simp: submits_failure_steps)
  with a rs k show ?thesis
    by (auto simp: handle_failure_def split: option.splits)
qed

lemma execute_calls:
  "\<exists>k tail. calls (snd (execute mgr clock tid request w)) = take k (fst (plan mgr request)) @ tail
      \<and> submits tail = []
      \<and> (fst (execute mgr clock tid request w) = Done \<longrightarrow>
            length (fst (plan mgr request)) \<le> k \<and> snd (plan mgr request) \<noteq> Inl Suspends
            \<and> (\<forall>e. snd (plan mgr request) \<noteq> Inl (Raises e)))"
proof -
  let ?r0 = "\<lparr>current = w, ticks = 0, history = [], calls = []\<rparr>"
  obtain y r1 where rs: "run_steps (store mgr) clock tid (fst (plan mgr request)) ?r0 = (y, r1)"
    by (cases "run_steps (store mgr) clock tid (fst (plan mgr request)) ?r0")
  from run_steps_calls [OF rs] obtain k where
    k: "k \<le> length (fst (plan mgr request))" "calls r1 = take k (fst (plan mgr request))"
       "y = None \<longrightarrow> k = length (fst (plan mgr request))"
    by auto
  show ?thesis
  proof (cases y)
    case (Some e)
    obtain x r2 where h: "handle_failure (store mgr) clock tid e r1 = (x, r2)"
      by (cases "handle_failure (store mgr) clock tid e r1")
    from handle_failure_calls [OF h] obtain tail where
      tl: "calls r2 = calls r1 @ tail" "submits tail = []" "x \<noteq> Done" by blast
    have ex: "execute mgr clock tid request w = (x, r2)"
      using rs Some h by (simp add: execute_def Let_def)
    show ?thesis
      by (rule exI [of _ k], rule exI [of _ tail]) (simp add: ex tl k)
  next
    case None
    show ?thesis
    proof (cases "snd (plan mgr request)")
      case (Inr u)
      have ex: "execute mgr clock tid request w = (Done, r1)"
        using rs None Inr by (simp add: execute_def Let_def)
      show ?thesis
        using k None Inr by (intro exI [of _ k] exI [of _ "[]"]) (simp add: ex)
    next
      case (Inl en)
      show ?thesis
      proof (cases en)
        case (Raises e)
        obtain x r2 where h: "handle_failure (store mgr) clock tid e r1 = (x, r2)"
          by (cases "handle_failure (store mgr) clock tid e r1")
        from handle_failure_calls [OF h] obtain tail where
          tl: "calls r2 = calls r1 @ tail" "submits tail = []" "x \<noteq> Done" by blast
        have ex: "execute mgr clock tid request w = (x, r2)"
          using rs None Inl Raises h by (simp add: execute_def Let_def)
        show ?thesis
          by (rule exI [of _ k], rule exI [of _ tail]) (simp add: ex tl k)
      next
        case Returns
        have ex: "execute mgr clock tid request w = (Done, r1)"
          using rs None Inl Returns by (simp add: execute_def Let_def)
        show ?thesis
          using k None Inl Returns by (intro exI [of _ k] exI [of _ "[]"]) (simp add: ex)
      next
        case Suspends
        have ex: "execute mgr clock tid request w = (Suspended, r1)"
          using rs None Inl Suspends by (simp add: execute_def Let_def)
        show ?thesis
          using k by (intro exI [of _ k] exI [of _ "[]"]) (simp add: ex)
      qed
    qed
  qed
qed







lemma in_submits: "((stg, payload) \<in> set (submits steps)) = (Submit stg payload \<in> set steps)"
  by (induction steps rule: submits.induct) auto

lemma take_covers:
  assumes "x \<in> set (take k (A @ x # B))" and "x \<notin> set A"
  shows "set A \<subseteq> set (take k (A @ x # B))"
proof (cases "k \<le> length A")
  case True
  with assms(1) have "x \<in> set (take k A)" by simp
  then have "x \<in> set A" by (rule in_set_takeD)
  with assms(2) show ?thesis by simp
next
  case False
  then show ?thesis by auto
qed

lemma facefusion_stage_steps:
  assumes "face_endpoint mgr = Some fep"
  shows "\<exists>B. fst (facefusion_stage mgr request_dict wav_result intermediate) =
           [UpdateFields [(''stage'', JStr ''facefusion'')],
            AppendProgress ''Submitting FaceFusion job'' (Some ''facefusion'') None,
            Submit FaceFusion (JDict [(''request'', JDict request_dict),
                                      (''wav2lip'', dget wav_result ''wav2lip'')])] @ B"
  using assms by (simp add: facefusion_stage_def fst_emit)

lemma lipsync_steps:
  assumes "wav_endpoint mgr = Some ep" and "submit (run_reply ep) = Inr job"
    and "endpoint_wait mgr ep job = Some (Inr (JDict ws))"
    and "wav_result_of (dget ws ''output'') = Some wr" and "source_keys rq \<noteq> []"
  shows "fst (lipsync mgr rq im0) =
           [UpdateFields (running ''wav2lip''),
            AppendProgress ''Submitting Wav2Lip job'' (Some ''wav2lip'') None,
            Submit Wav2Lip (JDict (request_to_dict rq)),
            UpdateFields [(''details'', JDict [(''wav2lip_job_id'', job)])],
            AppendProgress ''Wav2Lip job submitted'' (Some ''wav2lip'') (Some [(''job_id'', job)]),
            UpdateFields [(''intermediate'', JDict (dset im0 ''wav2lip'' (JDict wr))),
                          (''details'', JDict [(''wav2lip_status'', JDict ws)])],
            AppendProgress ''Wav2Lip completed'' (Some ''wav2lip'') None]
           @ fst (facefusion_stage mgr (request_to_dict rq) wr (dset im0 ''wav2lip'' (JDict wr)))"
  using assms
  by (simp add: lipsync_def Let_def fst_emit fst_andthen snd_andthen flow_simps)

lemma lipsync_face:
  assumes "Submit FaceFusion payload \<in> set (fst (lipsync mgr rq im0))"
  shows "\<exists>ep job ws wr A B.
           wav_endpoint mgr = Some ep \<and> submit (run_reply ep) = Inr job
         \<and> endpoint_wait mgr ep job = Some (Inr (JDict ws))
         \<and> wav_result_of (dget ws ''output'') = Some wr
         \<and> fst (lipsync mgr rq im0) = A @ Submit FaceFusion payload # B
         \<and> Submit FaceFusion payload \<notin> set A
         \<and> Submit Wav2Lip (JDict (request_to_dict rq)) \<in> set A
         \<and> UpdateFields [(''intermediate'', JDict (dset im0 ''wav2lip'' (JDict wr))),
                          (''details'', JDict [(''wav2lip_status'', JDict ws)])] \<in> set A
         \<and> payload = JDict [(''request'', JDict (request_to_dict rq)), (''wav2lip'', dget wr ''wav2lip'')]"
proof -
  from assms have ins: "(FaceFusion, payload) \<in> set (submits (fst (lipsync mgr rq im0)))"
    by (simp add: in_submits)
  then obtain ep where ep: "wav_endpoint mgr = Some ep"
    by (cases "wav_endpoint mgr") (auto simp: submits_lipsync)
  from ins ep obtain job where job: "submit (run_reply ep) = Inr job"
    by (cases "submit (run_reply ep)") (auto simp: submits_lipsync)
  have "\<exists>ws. endpoint_wait mgr ep job = Some (Inr (JDict ws))"
  proof (cases "endpoint_wait mgr ep job")
    case None
    with ins ep job show ?thesis by (simp add: submits_lipsync)
  next
    case (Some res)
    show ?thesis
    proof (cases res)
      case (Inl e)
      with ins ep job Some show ?thesis by (simp add: submits_lipsync)
    next
      case (Inr v)
      with ins ep job Some show ?thesis by (cases v) (simp_all add: submits_lipsync)
    qed
  qed
  then obtain ws where ws: "endpoint_wait mgr ep job = Some (Inr (JDict ws))" by blast
  have "\<exists>wr. wav_result_of (dget ws ''output'') = Some wr"
    using ins ep job ws by (cases "wav_result_of (dget ws ''output'')") (simp_all add: submits_lipsync)
  then obtain wr where wr: "wav_result_of (dget ws ''output'') = Some wr" by blast
  have sk: "source_keys rq \<noteq> []"
  proof
    assume "source_keys rq = []"
    with ins ep job ws wr show False by (simp add: submits_lipsync)
  qed
  from ins ep job ws wr sk have inf: "(FaceFusion, payload) \<in> set (submits (fst
      (facefusion_stage mgr (request_to_dict rq) wr (dset im0 ''wav2lip'' (JDict wr)))))"
    by (simp add: submits_lipsync)
  then have "\<exists>fep. face_endpoint mgr = Some fep"
    by (cases "face_endpoint mgr") (simp_all add: submits_facefusion_stage)
  then obtain fep where fep: "face_endpoint mgr = Some fep" by blast
  from inf fep have pl: "payload = JDict [(''request'', JDict (request_to_dict rq)), (''wav2lip'', dget wr ''wav2lip'')]"
    by (simp add: submits_facefusion_stage)
  from facefusion_stage_steps [OF fep, of "request_to_dict rq" wr "dset im0 ''wav2lip'' (JDict wr)"]
  obtain B where B: "fst (facefusion_stage mgr (request_to_dict rq) wr (dset im0 ''wav2lip'' (JDict wr))) =
           [UpdateFields [(''stage'', JStr ''facefusion'')],
            AppendProgress ''Submitting FaceFusion job'' (Some ''facefusion'') None,
            Submit FaceFusion (JDict [(''request'', JDict (request_to_dict rq)),
                                      (''wav2lip'', dget wr ''wav2lip'')])] @ B"
    by blast
  let ?A = "[UpdateFields (running ''wav2lip''),
            AppendProgress ''Submitting Wav2Lip job'' (Some ''wav2lip'') None,
            Submit Wav2Lip (JDict (request_to_dict rq)),
            UpdateFields [(''details'', JDict [(''wav2lip_job_id'', job)])],
            AppendProgress ''Wav2Lip job submitted'' (Some ''wav2lip'') (Some [(''job_id'', job)]),
            UpdateFields [(''intermediate'', JDict (dset im0 ''wav2lip'' (JDict wr))),
                          (''details'', JDict [(''wav2lip_status'', JDict ws)])],
            AppendProgress ''Wav2Lip completed'' (Some ''wav2lip'') None,
            UpdateFields [(''stage'', JStr ''facefusion'')],
            AppendProgress ''Submitting FaceFusion job'' (Some ''facefusion'') None]"
  have eq: "fst (lipsync mgr rq im0) = ?A @ Submit FaceFusion payload # B"
    by (simp add: lipsync_steps [OF ep job ws wr sk] B pl)
  have "Submit FaceFusion payload \<notin> set ?A" by simp
  moreover have "Submit Wav2Lip (JDict (request_to_dict rq)) \<in> set ?A" by simp
  moreover have "UpdateFields [(''intermediate'', JDict (dset im0 ''wav2lip'' (JDict wr))),
                          (''details'', JDict [(''wav2lip_status'', JDict ws)])] \<in> set ?A" by simp
  ultimately show ?thesis using ep job ws wr eq pl by blast
qed

lemma plan_face:
  assumes "Submit FaceFusion payload \<in> set (fst (plan mgr request))"
  shows "\<exists>request' im0 pre.
           fst (plan mgr request) = pre @ fst (lipsync mgr request' im0)
         \<and> Submit FaceFusion payload \<notin> set pre
         \<and> Submit FaceFusion payload \<in> set (fst (lipsync mgr request' im0))
         \<and> (\<not> selected request SoVITS \<longrightarrow> request' = request)
         \<and> source_keys request' = source_keys request \<and> target_key request' = target_key request"
proof -
  let ?script = "py_strip (case script_text request of None \<Rightarrow> [] | Some s \<Rightarrow> s)"
  let ?voice = "py_or (reference_audio_key request) (audio_key request)"
  let ?sov = "sovits_stage mgr request ?script ?voice"
  have nosov: "Submit FaceFusion payload \<notin> set (fst ?sov)"
    using in_submits [of FaceFusion payload "fst ?sov"]
    by (auto simp: submits_sovits_stage split: option.splits if_splits)
  have noaudio: "Submit FaceFusion payload \<notin> set (fst (audio_only rq sr))" for rq sr
    using in_submits [of FaceFusion payload "fst (audio_only rq sr)"]
    by (simp add: submits_audio_only)
  show ?thesis
  proof (cases "?script \<noteq> []")
    case False
    then have ns: "\<not> selected request SoVITS" by (simp add: selected_def)
    show ?thesis
    proof (cases "\<not> truthy (audio_key request) \<and> \<not> truthy (audio_base64 request)")
      case True
      with False assms show ?thesis
        by (simp add: plan_def Let_def fst_andthen snd_andthen flow_simps)
    next
      case nm: False
      have p: "fst (plan mgr request) = fst (if \<not> opt_truthy (target_key request) \<and> source_keys request = []
                then audio_only request None else lipsync mgr request [])"
        using False nm by (auto simp: plan_def Let_def fst_andthen snd_andthen flow_simps)
      show ?thesis
      proof (cases "\<not> opt_truthy (target_key request) \<and> source_keys request = []")
        case True
        with p assms noaudio [of request None] show ?thesis by simp
      next
        case lf: False
        with p have "fst (plan mgr request) = [] @ fst (lipsync mgr request [])" by auto
        moreover from this assms have "Submit FaceFusion payload \<in> set (fst (lipsync mgr request []))"
          by simp
        ultimately show ?thesis by (intro exI [of _ request] exI [of _ "[]"]) simp
      qed
    qed
  next
    case True
    show ?thesis
    proof (cases "snd ?sov")
      case (Inl e)
      have "fst (plan mgr request) = fst ?sov"
        using True Inl by (simp add: plan_def Let_def fst_andthen snd_andthen flow_simps)
      with assms nosov show ?thesis by simp
    next
      case (Inr r)
      from go_sovits_stage [OF Inr] have g:
        "source_keys (fst r) = source_keys request" "target_key (fst r) = target_key request"
        by auto
      let ?tail = "if \<not> opt_truthy (target_key (fst r)) \<and> source_keys (fst r) = []
                then audio_only (fst r) (Some (snd r)) else lipsync mgr (fst r) [(''sovits'', JDict (snd r))]"
      have p: "fst (plan mgr request) = fst ?sov @ fst ?tail"
        using True Inr
        by (auto simp: plan_def Let_def fst_andthen snd_andthen flow_simps split: prod.splits)
      show ?thesis
      proof (cases "\<not> opt_truthy (target_key (fst r)) \<and> source_keys (fst r) = []")
        case at: True
        with p assms nosov noaudio [of "fst r" "Some (snd r)"] show ?thesis by simp
      next
        case lf: False
        with p have p': "fst (plan mgr request) = fst ?sov @ fst (lipsync mgr (fst r) [(''sovits'', JDict (snd r))])"
          by auto
        with assms nosov have "Submit FaceFusion payload \<in> set (fst (lipsync mgr (fst r) [(''sovits'', JDict (snd r))]))"
          by simp
        with p' nosov g True show ?thesis
          by (intro exI [of _ "fst r"] exI [of _ "[(''sovits'', JDict (snd r))]"] exI [of _ "fst ?sov"])
             (simp add: selected_def)
      qed
    qed
  qed
qed

text \<open>
  C4 (amended): whenever a face-swap job is submitted, the lip-sync worker is configured, its
  job was submitted with the request snapshot \<^verbatim>\<open>request_dict\<close> (the request itself when no
  voice synthesis ran), its \<^verbatim>\<open>wait\<close> has returned a status, and the payload of the face-swap
  job is the mapping with \<^verbatim>\<open>request\<close> holding that same snapshot and \<^verbatim>\<open>wav2lip\<close> holding the
  \<^verbatim>\<open>wav2lip\<close> entry of the lip-sync output (null when there is none); the whole lip-sync
  output is what \<^verbatim>\<open>update_fields\<close> was given before as \<^verbatim>\<open>intermediate.wav2lip\<close>.
\<close>

theorem C4_face_payload:
  "(FaceFusion, payload) \<in> set (submitted (snd (execute mgr clock task_id request w))) \<longrightarrow>
     (\<exists>ep job ws wav_result request' intermediate.
         wav_endpoint mgr = Some ep \<and> submit (run_reply ep) = Inr job
       \<and> endpoint_wait mgr ep job = Some (Inr (JDict ws))
       \<and> wav_result_of (dget ws ''output'') = Some wav_result
       \<and> (\<not> selected request SoVITS \<longrightarrow> request' = request)
       \<and> (Wav2Lip, JDict (request_to_dict request')) \<in> set (submitted (snd (execute mgr clock task_id request w)))
       \<and> payload = JDict [(''request'', JDict (request_to_dict request')),
                           (''wav2lip'', dget wav_result ''wav2lip'')]
       \<and> UpdateFields [(''intermediate'', JDict intermediate),
                        (''details'', JDict [(''wav2lip_status'', JDict ws)])]
            \<in> set (calls (snd (execute mgr clock task_id request w)))
       \<and> map_of intermediate ''wav2lip'' = Some (JDict wav_result))"
proof
  let ?run = "snd (execute mgr clock task_id request w)"
  let ?P = "fst (plan mgr request)"
  assume a: "(FaceFusion, payload) \<in> set (submitted ?run)"
  from execute_calls [of mgr clock task_id request w] obtain k tail where
    c: "calls ?run = take k ?P @ tail" and t: "submits tail = []"
    by blast
  from a have "(FaceFusion, payload) \<in> set (submits (take k ?P))"
    by (simp add: submitted_def c submits_append t)
  then have intake: "Submit FaceFusion payload \<in> set (take k ?P)"
    by (simp add: in_submits)
  then have "Submit FaceFusion payload \<in> set ?P"
    by (rule in_set_takeD)
  from plan_face [OF this] obtain request' im0 pre where
    pp: "?P = pre @ fst (lipsync mgr request' im0)"
    and np: "Submit FaceFusion payload \<notin> set pre"
    and il: "Submit FaceFusion payload \<in> set (fst (lipsync mgr request' im0))"
    and rq: "\<not> selected request SoVITS \<longrightarrow> request' = request"
    by blast
  from lipsync_face [OF il] obtain ep job ws wr A B where
    f: "wav_endpoint mgr = Some ep" "submit (run_reply ep) = Inr job"
       "endpoint_wait mgr ep job = Some (Inr (JDict ws))"
       "wav_result_of (dget ws ''output'') = Some wr"
    and dec: "fst (lipsync mgr request' im0) = A @ Submit FaceFusion payload # B"
    and nA: "Submit FaceFusion payload \<notin> set A"
    and wA: "Submit Wav2Lip (JDict (request_to_dict request')) \<in> set A"
    and uA: "UpdateFields [(''intermediate'', JDict (dset im0 ''wav2lip'' (JDict wr))),
                          (''details'', JDict [(''wav2lip_status'', JDict ws)])] \<in> set A"
    and pl: "payload = JDict [(''request'', JDict (request_to_dict request')), (''wav2lip'', dget wr ''wav2lip'')]"
    by blast
  have P: "?P = (pre @ A) @ Submit FaceFusion payload # B"
    by (simp add: pp dec)
  have "Submit FaceFusion payload \<notin> set (pre @ A)"
    using np nA by simp
  from take_covers [OF intake [unfolded P] this] have cov: "set (pre @ A) \<subseteq> set (take k ?P)"
    by (simp add: P)
  from cov wA have "Submit Wav2Lip (JDict (request_to_dict request')) \<in> set (calls ?run)"
    by (auto simp: c)
  then have w2: "(Wav2Lip, JDict (request_to_dict request')) \<in> set (submitted ?run)"
    by (simp add: submitted_def in_submits)
  from cov uA have u: "UpdateFields [(''intermediate'', JDict (dset im0 ''wav2lip'' (JDict wr))),
                          (''details'', JDict [(''wav2lip_status'', JDict ws)])] \<in> set (calls ?run)"
    by (auto simp: c)
  have m: "map_of (dset im0 ''wav2lip'' (JDict wr)) ''wav2lip'' = Some (JDict wr)"
    by (simp add: map_of_dset)
  from f rq w2 pl u m
  show "\<exists>ep job ws wav_result request' intermediate.
         wav_endpoint mgr = Some ep \<and> submit (run_reply ep) = Inr job
       \<and> endpoint_wait mgr ep job = Some (Inr (JDict ws))
       \<and> wav_result_of (dget ws ''output'') = Some wav_result
       \<and> (\<not> selected request SoVITS \<longrightarrow> request' = request)
       \<and> (Wav2Lip, JDict (request_to_dict request')) \<in> set (submitted ?run)
       \<and> payload = JDict [(''request'', JDict (request_to_dict request')),
                           (''wav2lip'', dget wav_result ''wav2lip'')]
       \<and> UpdateFields [(''intermediate'', JDict intermediate),
                        (''details'', JDict [(''wav2lip_status'', JDict ws)])]
            \<in> set (calls ?run)
       \<and> map_of intermediate ''wav2lip'' = Some (JDict wav_result)"
    by blast
qed

end
